theory Spec2Isabelle
  imports Main "HOL-Library.Sublist" "HOL-Library.Word"
begin

unbundle bit_operations_syntax

section \<open>The parts of the Go library that archivex.go calls\<close>

subsection \<open>Package strings\<close>

text \<open>
  A Go string is a sequence of bytes, here a \<open>string\<close> (a list of 8-bit characters).
  \<^verbatim>\<open>strings.HasSuffix(s, suffix)\<close> is
  \<^verbatim>\<open>len(s) >= len(suffix) && s[len(s)-len(suffix):] == suffix\<close>.
\<close>

definition HasSuffix :: "string \<Rightarrow> string \<Rightarrow> bool" where
  "HasSuffix s suf \<longleftrightarrow> length suf \<le> length s \<and> drop (length s - length suf) s = suf"

definition HasPrefix :: "string \<Rightarrow> string \<Rightarrow> bool" where
  "HasPrefix s pre \<longleftrightarrow> length pre \<le> length s \<and> take (length pre) s = pre"

text \<open>
  \<^verbatim>\<open>strings.Replace(s, old, new, -1)\<close>: every non-overlapping occurrence of \<open>old\<close>
  is replaced by \<open>new\<close>, scanning from the left. archivex.go passes the literals
  \<^verbatim>\<open>".tar.gz"\<close> and \<^verbatim>\<open>".zip"\<close> for \<open>old\<close>; the case of an empty \<open>old\<close>
  (Go then inserts \<open>new\<close> around every UTF-8 sequence) is left out.
\<close>

fun Replace_all :: "string \<Rightarrow> string \<Rightarrow> string \<Rightarrow> string" where
  "Replace_all [] (a # old) new = []"
| "Replace_all (c # s) (a # old) new =
     (if HasPrefix (c # s) (a # old)
      then new @ Replace_all (drop (length old) s) (a # old) new
      else c # Replace_all s (a # old) new)"

subsection \<open>Errors, panics, output sinks and encoders\<close>

text \<open>
  A Go \<^verbatim>\<open>error\<close> is an \<open>error option\<close>, \<open>None\<close> being \<^verbatim>\<open>nil\<close>.
  A call that dereferences a nil pointer panics.
\<close>

datatype error = EOF | Err string

datatype 'a go = Panic | Return 'a

text \<open>
  An \<^verbatim>\<open>io.Writer\<close> value: the \<^verbatim>\<open>*os.File\<close> that \<^verbatim>\<open>os.Create\<close> opened at a
  path, or a writer of the caller, which may or may not have a \<^verbatim>\<open>Close\<close> method.
\<close>

datatype sink = OsFile string | PlainWriter nat | ClosableWriter nat

fun is_Closer :: "sink \<Rightarrow> bool" where
  "is_Closer (OsFile p) = True"
| "is_Closer (PlainWriter i) = False"
| "is_Closer (ClosableWriter i) = True"

datatype zip_Writer = zip_NewWriter sink

datatype gzip_Writer = gzip_NewWriter sink

datatype tar_target = OnGzip gzip_Writer | OnSink sink

datatype tar_Writer = tar_NewWriter tar_target

record zip_FileHeader =
  zh_Name :: string
  zh_Flags :: "16 word"
  zh_Method :: "16 word"

definition zip_Store :: "16 word" where "zip_Store = 0"
definition zip_Deflate :: "16 word" where "zip_Deflate = 8"

record tar_Header =
  th_Name :: string
  th_Typeflag :: char
  th_Size :: int
  th_Mode :: int
  th_ModTime :: nat

definition tar_TypeReg :: char where "tar_TypeReg = CHR ''0''"
definition tar_TypeDir :: char where "tar_TypeDir = CHR ''5''"
definition os_ModeDir :: int where "os_ModeDir = 2 ^ 31"

text \<open>
  The calls that leave archivex.go. Their encodings are the collaborators' business; what
  the code sees of a call is the error it returns, which the environment decides. A run
  is recorded as the list of the calls made, each with the error it returned.
\<close>

datatype call =
    os_Create string
  | zip_CreateHeader zip_Writer zip_FileHeader
  | zip_Write zip_Writer string
  | zip_Close zip_Writer
  | tar_WriteHeader tar_Writer tar_Header
  | tar_Write tar_Writer string
  | tar_Close tar_Writer
  | gzip_Close gzip_Writer
  | io_Close sink

type_synonym event = "call \<times> error option"

record env =
  outcome :: "call \<Rightarrow> error option"
  time_Now :: nat

definition perform :: "env \<Rightarrow> call \<Rightarrow> event list \<Rightarrow> error option \<times> event list" where
  "perform env c tr = (outcome env c, tr @ [(c, outcome env c)])"


subsection \<open>Byte sources and package io\<close>

text \<open>
  An \<^verbatim>\<open>io.ReadSeeker\<close> of the caller: a reader over \<open>src_data\<close> with the read offset
  \<open>src_pos\<close>, whose \<^verbatim>\<open>Seek\<close> and \<^verbatim>\<open>Read\<close> behave as those of \<^verbatim>\<open>bytes.Reader\<close> and
  of a file do, and which can be made to fail: \<open>src_seek_fault\<close> and \<open>src_read_fault\<close>
  give the error of a failing \<^verbatim>\<open>Seek\<close> (by its \<open>whence\<close>) and of a failing \<^verbatim>\<open>Read\<close>.
  Its dynamic type \<open>src_type\<close> decides whether it has a \<^verbatim>\<open>WriteTo\<close> method, which
  package io prefers to its own loop: a \<^verbatim>\<open>bytes.Reader\<close> or \<^verbatim>\<open>strings.Reader\<close> has
  one, an \<^verbatim>\<open>*os.File\<close> has one (since Go 1.22), and \<open>OnlyReadSeeker\<close> stands for a
  type that has none.
\<close>

datatype whence = SeekStart | SeekCurrent | SeekEnd

datatype source_type = OnlyReadSeeker | BytesReader | FileReader

record source =
  src_type :: source_type
  src_data :: string
  src_pos :: nat
  src_seek_fault :: "whence \<Rightarrow> error option"
  src_read_fault :: "error option"

definition Seek :: "source \<Rightarrow> int \<Rightarrow> whence \<Rightarrow> (int \<times> error option) \<times> source" where
  "Seek f offset wh =
     (case src_seek_fault f wh of
        Some e \<Rightarrow> ((0, Some e), f)
      | None \<Rightarrow>
          (let abs = (case wh of
                        SeekStart \<Rightarrow> offset
                      | SeekCurrent \<Rightarrow> int (src_pos f) + offset
                      | SeekEnd \<Rightarrow> int (length (src_data f)) + offset)
           in if abs < 0 then ((0, Some (Err ''negative position'')), f)
              else ((abs, None), f\<lparr>src_pos := nat abs\<rparr>)))"

text \<open>\<open>Read f n\<close> is a \<^verbatim>\<open>Read\<close> into a buffer of \<open>n\<close> bytes; it returns the bytes read.\<close>

definition Read :: "source \<Rightarrow> nat \<Rightarrow> (string \<times> error option) \<times> source" where
  "Read f n =
     (case src_read_fault f of
        Some e \<Rightarrow> (([], Some e), f)
      | None \<Rightarrow>
          if length (src_data f) \<le> src_pos f then (([], Some EOF), f)
          else (let b = take n (drop (src_pos f) (src_data f))
                in ((b, None), f\<lparr>src_pos := src_pos f + length b\<rparr>)))"

text \<open>
  The destinations that archivex.go copies to: the \<^verbatim>\<open>*tar.Writer\<close> of a \<^verbatim>\<open>TarFile\<close>
  and the entry writer that \<^verbatim>\<open>zip.Writer.CreateHeader\<close> returns. A \<^verbatim>\<open>Write\<close> to one
  of them is a call of the encoder; it takes the whole block or fails.
\<close>

datatype dest = TarEntry tar_Writer | ZipEntry zip_Writer

fun Write_call :: "dest \<Rightarrow> string \<Rightarrow> call" where
  "Write_call (TarEntry w) b = tar_Write w b"
| "Write_call (ZipEntry w) b = zip_Write w b"

type_synonym copy_result = "(error option \<times> source \<times> event list) go"

text \<open>
  The loop of \<^verbatim>\<open>io.copyBuffer\<close> with a buffer of \<open>n\<close> bytes: it reads and writes until
  \<^verbatim>\<open>Read\<close> or \<^verbatim>\<open>Write\<close> returns an error, and \<^verbatim>\<open>io.EOF\<close> is not reported. The
  result is the error, the source and the calls made. The buffer is never empty there
  (\<^verbatim>\<open>io.CopyBuffer\<close> has panicked before, and a nil buffer is replaced by one of 32 KiB);
  \<open>n = 0\<close> is given the value of that panic.
\<close>

function copy_loop :: "env \<Rightarrow> dest \<Rightarrow> source \<Rightarrow> nat \<Rightarrow> event list \<Rightarrow> copy_result" where
  "copy_loop env dst src n tr =
     (if n = 0 then Panic
      else (case Read src n of
              ((b, er), src1) \<Rightarrow>
                (case (if b \<noteq> [] then perform env (Write_call dst b) tr else (None, tr)) of
                   (Some ew, tr1) \<Rightarrow> Return (Some ew, src1, tr1)
                 | (None, tr1) \<Rightarrow>
                     (case er of
                        Some e \<Rightarrow> Return (if e \<noteq> EOF then Some e else None, src1, tr1)
                      | None \<Rightarrow> copy_loop env dst src1 n tr1))))"
  by pat_completeness auto
termination
  apply (relation "measure (\<lambda>(env, dst, src, n, tr). length (src_data src) - src_pos src)")
   apply simp
  apply (auto simp: Read_def Let_def min_def split: option.splits if_splits)
  done

text \<open>
  The type assertion \<^verbatim>\<open>dst.(io.ReaderFrom)\<close>: neither \<^verbatim>\<open>*tar.Writer\<close> nor the entry
  writer of \<^verbatim>\<open>archive/zip\<close> has a \<^verbatim>\<open>ReadFrom\<close> method.
\<close>

fun as_ReaderFrom :: "dest \<Rightarrow> (env \<Rightarrow> source \<Rightarrow> event list \<Rightarrow> copy_result) option" where
  "as_ReaderFrom (TarEntry w) = None"
| "as_ReaderFrom (ZipEntry w) = None"

text \<open>
  \<^verbatim>\<open>io.copyBuffer\<close> for a source without \<^verbatim>\<open>WriteTo\<close>: the \<^verbatim>\<open>ReadFrom\<close> of the
  destination if it has one, the loop otherwise.
\<close>

definition copy_without_WriteTo ::
  "env \<Rightarrow> dest \<Rightarrow> source \<Rightarrow> nat \<Rightarrow> event list \<Rightarrow> copy_result" where
  "copy_without_WriteTo env dst src n tr =
     (case as_ReaderFrom dst of
        Some rf \<Rightarrow> rf env src tr
      | None \<Rightarrow> copy_loop env dst src n tr)"

text \<open>
  \<^verbatim>\<open>(*bytes.Reader).WriteTo\<close> and \<^verbatim>\<open>(*strings.Reader).WriteTo\<close>: nothing at the end of
  the data, otherwise one \<^verbatim>\<open>Write\<close> of all that is left; the offset moves by the bytes
  written.
\<close>

definition Reader_WriteTo :: "env \<Rightarrow> dest \<Rightarrow> source \<Rightarrow> event list \<Rightarrow> copy_result" where
  "Reader_WriteTo env dst src tr =
     (if length (src_data src) \<le> src_pos src then Return (None, src, tr)
      else (let b = drop (src_pos src) (src_data src);
                (err, tr1) = perform env (Write_call dst b) tr
            in case err of
                 Some e \<Rightarrow> Return (Some e, src, tr1)
               | None \<Rightarrow> Return (None, src\<lparr>src_pos := src_pos src + length b\<rparr>, tr1)))"

text \<open>
  \<^verbatim>\<open>(*os.File).WriteTo\<close>: its kernel shortcuts are for sockets and files, so for these
  destinations it is \<^verbatim>\<open>io.Copy\<close> from the file stripped of its \<^verbatim>\<open>WriteTo\<close>, whose
  buffer has 32 KiB.
\<close>

definition File_WriteTo :: "env \<Rightarrow> dest \<Rightarrow> source \<Rightarrow> event list \<Rightarrow> copy_result" where
  "File_WriteTo env dst src tr = copy_without_WriteTo env dst src (32 * 1024) tr"

text \<open>The type assertion \<^verbatim>\<open>src.(io.WriterTo)\<close>.\<close>

definition as_WriterTo ::
  "source \<Rightarrow> (env \<Rightarrow> dest \<Rightarrow> source \<Rightarrow> event list \<Rightarrow> copy_result) option" where
  "as_WriterTo src =
     (case src_type src of
        OnlyReadSeeker \<Rightarrow> None
      | BytesReader \<Rightarrow> Some Reader_WriteTo
      | FileReader \<Rightarrow> Some File_WriteTo)"

text \<open>
  \<^verbatim>\<open>io.copyBuffer(dst, src, buf)\<close>: the \<^verbatim>\<open>WriteTo\<close> of the source if it has one, then
  the \<^verbatim>\<open>ReadFrom\<close> of the destination if it has one, and only then the loop, for which
  a nil buffer (\<open>None\<close>) is replaced by one of 32 KiB. A buffer is given by its length.
\<close>

definition buffer_size :: "nat option \<Rightarrow> nat" where
  "buffer_size buf = (case buf of None \<Rightarrow> 32 * 1024 | Some n \<Rightarrow> n)"

definition copyBuffer ::
  "env \<Rightarrow> dest \<Rightarrow> source \<Rightarrow> nat option \<Rightarrow> event list \<Rightarrow> copy_result" where
  "copyBuffer env dst src buf tr =
     (case as_WriterTo src of
        Some wt \<Rightarrow> wt env dst src tr
      | None \<Rightarrow> copy_without_WriteTo env dst src (buffer_size buf) tr)"

text \<open>\<^verbatim>\<open>io.Copy(dst, src)\<close> is \<^verbatim>\<open>copyBuffer(dst, src, nil)\<close>.\<close>

definition io_Copy :: "env \<Rightarrow> dest \<Rightarrow> source \<Rightarrow> event list \<Rightarrow> copy_result" where
  "io_Copy env dst src tr = copyBuffer env dst src None tr"

text \<open>
  \<^verbatim>\<open>io.CopyBuffer(dst, src, buf)\<close> with a buffer of \<open>n\<close> bytes, not nil: it panics on an
  empty buffer and is \<^verbatim>\<open>copyBuffer(dst, src, buf)\<close> otherwise.
\<close>

definition io_CopyBuffer :: "env \<Rightarrow> dest \<Rightarrow> source \<Rightarrow> nat \<Rightarrow> event list \<Rightarrow> copy_result" where
  "io_CopyBuffer env dst src n tr =
     (if n = 0 then Panic else copyBuffer env dst src (Some n) tr)"

section \<open>archivex.go\<close>

record ZipFile =
  z_Writer :: "zip_Writer option"
  z_Name :: string
  z_out :: "sink option"

record TarFile =
  t_Writer :: "tar_Writer option"
  t_Name :: string
  t_GzWriter :: "gzip_Writer option"
  t_Compressed :: bool
  t_out :: "sink option"

text \<open>The zero values of the two structs: what \<^verbatim>\<open>new(ZipFile)\<close> and \<^verbatim>\<open>new(TarFile)\<close> give.\<close>

definition new_ZipFile :: ZipFile where
  "new_ZipFile = \<lparr>z_Writer = None, z_Name = [], z_out = None\<rparr>"

definition new_TarFile :: TarFile where
  "new_TarFile =
     \<lparr>t_Writer = None, t_Name = [], t_GzWriter = None, t_Compressed = False, t_out = None\<rparr>"

text \<open>\<^verbatim>\<open>func (z *ZipFile) Create(name string) error\<close>, lines 49 to 65.\<close>

definition ZipFile_Create ::
  "env \<Rightarrow> ZipFile \<Rightarrow> string \<Rightarrow> event list \<Rightarrow> error option \<times> ZipFile \<times> event list" where
  "ZipFile_Create env z name tr =
     (let name1 =
            (if HasSuffix name ''.zip'' \<noteq> True
             then (if HasSuffix name ''.tar.gz'' = True
                   then Replace_all name ''.tar.gz'' ''.zip''
                   else name @ ''.zip'')
             else name);
          z1 = z\<lparr>z_Name := name1\<rparr>;
          (err, tr1) = perform env (os_Create (z_Name z1)) tr
      in case err of
           Some e \<Rightarrow> (Some e, z1, tr1)
         | None \<Rightarrow> (None, z1\<lparr>z_Writer := Some (zip_NewWriter (OsFile (z_Name z1)))\<rparr>, tr1))"

text \<open>\<^verbatim>\<open>func (z *ZipFile) CreateWriter(name string, w io.Writer) error\<close>, lines 68 to 72.\<close>

definition ZipFile_CreateWriter :: "ZipFile \<Rightarrow> string \<Rightarrow> sink \<Rightarrow> error option \<times> ZipFile" where
  "ZipFile_CreateWriter z name w =
     (None, z\<lparr>z_Writer := Some (zip_NewWriter w), z_Name := name\<rparr>)"

text \<open>\<^verbatim>\<open>func (z *ZipFile) AddFile(path string, file io.ReadSeeker) error\<close>, lines 75 to 88.\<close>

definition ZipFile_AddFile ::
  "env \<Rightarrow> ZipFile \<Rightarrow> string \<Rightarrow> source \<Rightarrow> event list
     \<Rightarrow> (error option \<times> source \<times> event list) go" where
  "ZipFile_AddFile env z path file tr =
     (let header = \<lparr>zh_Name = path, zh_Flags = push_bit 11 1, zh_Method = zip_Deflate\<rparr>
      in case z_Writer z of
           None \<Rightarrow> Panic
         | Some w \<Rightarrow>
             (let (err, tr1) = perform env (zip_CreateHeader w header) tr
              in case err of
                   Some e \<Rightarrow> Return (Some e, file, tr1)
                 | None \<Rightarrow> io_CopyBuffer env (ZipEntry w) file (128 * 1024) tr1))"

text \<open>\<^verbatim>\<open>func (z *ZipFile) AddDirectory(path string) error\<close>, lines 90 to 101.\<close>

definition ZipFile_AddDirectory ::
  "env \<Rightarrow> ZipFile \<Rightarrow> string \<Rightarrow> event list \<Rightarrow> (error option \<times> event list) go" where
  "ZipFile_AddDirectory env z path tr =
     (let path1 = (if \<not> HasSuffix path ''/'' then path @ ''/'' else path);
          header = \<lparr>zh_Name = path1, zh_Flags = push_bit 11 1, zh_Method = zip_Store\<rparr>
      in case z_Writer z of
           None \<Rightarrow> Panic
         | Some w \<Rightarrow> Return (perform env (zip_CreateHeader w header) tr))"

text \<open>\<^verbatim>\<open>func (z *ZipFile) Close() error\<close>, lines 104 to 111.\<close>

definition ZipFile_Close ::
  "env \<Rightarrow> ZipFile \<Rightarrow> event list \<Rightarrow> (error option \<times> event list) go" where
  "ZipFile_Close env z tr =
     (case z_Writer z of
        None \<Rightarrow> Panic
      | Some w \<Rightarrow>
          (let (err, tr1) = perform env (zip_Close w) tr;
               tr2 = (case z_out z of
                        Some c \<Rightarrow> if is_Closer c then snd (perform env (io_Close c) tr1) else tr1
                      | None \<Rightarrow> tr1)
           in Return (err, tr2)))"

text \<open>\<^verbatim>\<open>func (t *TarFile) configureName(name string)\<close>, lines 113 to 133.\<close>

definition TarFile_configureName :: "TarFile \<Rightarrow> string \<Rightarrow> TarFile" where
  "TarFile_configureName t name =
     (let t1 = t\<lparr>t_Compressed := HasSuffix name ''.tar.gz''\<rparr>;
          (name1, t2) =
            (if \<not> HasSuffix name ''.tar.gz'' \<and> \<not> HasSuffix name ''.tar''
             then (if HasSuffix name ''.zip''
                   then (Replace_all name ''.zip'' ''.tar.gz'', t1\<lparr>t_Compressed := True\<rparr>)
                   else (name @ ''.tar'', t1))
             else (name, t1))
      in t2\<lparr>t_Name := name1\<rparr>)"

text \<open>
  \<^verbatim>\<open>func (t *TarFile) Create(name string) error\<close>, lines 136 to 152. The file is opened at
  the argument \<open>name\<close>, as line 139 has it, not at \<open>t.Name\<close>.
\<close>

definition TarFile_Create ::
  "env \<Rightarrow> TarFile \<Rightarrow> string \<Rightarrow> event list \<Rightarrow> error option \<times> TarFile \<times> event list" where
  "TarFile_Create env t name tr =
     (let t1 = TarFile_configureName t name;
          (err, tr1) = perform env (os_Create name) tr;
          file = OsFile name
      in case err of
           Some e \<Rightarrow> (Some e, t1, tr1)
         | None \<Rightarrow>
             (let t2 = (if t_Compressed t1
                        then t1\<lparr>t_GzWriter := Some (gzip_NewWriter file),
                                t_Writer := Some (tar_NewWriter (OnGzip (gzip_NewWriter file)))\<rparr>
                        else t1\<lparr>t_Writer := Some (tar_NewWriter (OnSink file))\<rparr>)
              in (None, t2\<lparr>t_out := Some file\<rparr>, tr1)))"

text \<open>\<^verbatim>\<open>func (t *TarFile) CreateWriter(name string, w io.Writer) error\<close>, lines 155 to 166.\<close>

definition TarFile_CreateWriter :: "TarFile \<Rightarrow> string \<Rightarrow> sink \<Rightarrow> error option \<times> TarFile" where
  "TarFile_CreateWriter t name w =
     (let t1 = TarFile_configureName t name;
          t2 = (if t_Compressed t1
                then t1\<lparr>t_GzWriter := Some (gzip_NewWriter w),
                        t_Writer := Some (tar_NewWriter (OnGzip (gzip_NewWriter w)))\<rparr>
                else t1\<lparr>t_Writer := Some (tar_NewWriter (OnSink w))\<rparr>)
      in (None, t2\<lparr>t_out := Some w\<rparr>))"

text \<open>
  \<^verbatim>\<open>func (t *TarFile) AddFile(path string, file io.ReadSeeker) error\<close>, lines 169 to 195.
  The mode \<^verbatim>\<open>0666\<close> is 438; \<open>sz\<close> is the \<^verbatim>\<open>size\<close> of the source, the
  \<^verbatim>\<open>int64\<close> that \<^verbatim>\<open>Seek\<close> returned.
\<close>

definition TarFile_AddFile ::
  "env \<Rightarrow> TarFile \<Rightarrow> string \<Rightarrow> source \<Rightarrow> event list
     \<Rightarrow> (error option \<times> source \<times> event list) go" where
  "TarFile_AddFile env t path file tr =
     (case Seek file 0 SeekEnd of
        ((sz, Some e), file1) \<Rightarrow> Return (Some e, file1, tr)
      | ((sz, None), file1) \<Rightarrow>
          (case Seek file1 0 SeekStart of
             ((off, Some e), file2) \<Rightarrow> Return (Some e, file2, tr)
           | ((off, None), file2) \<Rightarrow>
               (let header = \<lparr>th_Name = path, th_Typeflag = tar_TypeReg, th_Size = sz,
                               th_Mode = 438, th_ModTime = time_Now env\<rparr>
                in case t_Writer t of
                     None \<Rightarrow> Panic
                   | Some w \<Rightarrow>
                       (let (err, tr1) = perform env (tar_WriteHeader w header) tr
                        in case err of
                             Some e \<Rightarrow> Return (Some e, file2, tr1)
                           | None \<Rightarrow> io_Copy env (TarEntry w) file2 tr1))))"

text \<open>
  \<^verbatim>\<open>func (t *TarFile) AddDirectory(path string) error\<close>, lines 197 to 210. The mode is
  \<^verbatim>\<open>0777 | int64(os.ModeDir)\<close>, and \<^verbatim>\<open>0777\<close> is 511.
\<close>

definition TarFile_AddDirectory ::
  "env \<Rightarrow> TarFile \<Rightarrow> string \<Rightarrow> event list \<Rightarrow> (error option \<times> event list) go" where
  "TarFile_AddDirectory env t path tr =
     (let path1 = (if \<not> HasSuffix path ''/'' then path @ ''/'' else path);
          header = \<lparr>th_Name = path1, th_Typeflag = tar_TypeDir, th_Size = 0,
                    th_Mode = 511 OR os_ModeDir, th_ModTime = time_Now env\<rparr>
      in case t_Writer t of
           None \<Rightarrow> Panic
         | Some w \<Rightarrow> Return (perform env (tar_WriteHeader w header) tr))"

text \<open>\<^verbatim>\<open>func (t *TarFile) Close() error\<close>, lines 213 to 231.\<close>

definition TarFile_Close ::
  "env \<Rightarrow> TarFile \<Rightarrow> event list \<Rightarrow> (error option \<times> event list) go" where
  "TarFile_Close env t tr =
     (case t_Writer t of
        None \<Rightarrow> Panic
      | Some w \<Rightarrow>
          (let (err, tr1) = perform env (tar_Close w) tr
           in case err of
                Some e \<Rightarrow> Return (Some e, tr1)
              | None \<Rightarrow>
                  (let release = (\<lambda>err tr2.
                         Return (err,
                           (case t_out t of
                              Some c \<Rightarrow>
                                if is_Closer c then snd (perform env (io_Close c) tr2) else tr2
                            | None \<Rightarrow> tr2)))
                   in if t_Compressed t
                      then (case t_GzWriter t of
                              None \<Rightarrow> Panic
                            | Some g \<Rightarrow>
                                (let (err1, tr2) = perform env (gzip_Close g) tr1
                                 in case err1 of
                                      Some e \<Rightarrow> Return (Some e, tr2)
                                    | None \<Rightarrow> release err1 tr2))
                      else release err tr1)))"

section \<open>The tree driver of the specification\<close>

text \<open>
  Modelled from the spec: \<^verbatim>\<open>AddAll\<close> is missing from archivex.go, which only declares
  the type \<^verbatim>\<open>ArchiveWriteFunc\<close> of the callback "used by an archive's AddAll method".
  Section 4.4 of the specification is followed: from a root path, a flag for the root
  segment and an archive handle with \<^verbatim>\<open>AddFile\<close> and \<^verbatim>\<open>AddDirectory\<close>, every
  entry under the root is visited, \<^verbatim>\<open>AddDirectory\<close> is called for a directory (for the
  root only when the flag asks for it) and \<^verbatim>\<open>AddFile\<close> for a regular file, each with
  its path relative to the root, joined by \<open>/\<close>; the first error ends the traversal.
  The file system is the collaborator: it gives the tree found at the root path, in which
  an entry that cannot be read carries the traversal's error.
\<close>

datatype fs_entry =
    RegularFile source
  | Directory "(string \<times> fs_entry) list"
  | Unreadable error

record 'h archive =
  AddFile :: "'h \<Rightarrow> string \<Rightarrow> source \<Rightarrow> (error option \<times> 'h) go"
  AddDirectory :: "'h \<Rightarrow> string \<Rightarrow> (error option \<times> 'h) go"

text \<open>
  Modelled from the spec: entry names use forward slashes; the name of the root, when it
  is not asked for, is empty.
\<close>

definition join_path :: "string \<Rightarrow> string \<Rightarrow> string" where
  "join_path dir name = (if dir = [] then name else dir @ ''/'' @ name)"

text \<open>
  Modelled from the spec: the root directory segment, the last segment of the root path,
  the separators at its end left out.
\<close>

definition root_segment :: "string \<Rightarrow> string" where
  "root_segment root =
     rev (takeWhile (\<lambda>c. c \<noteq> CHR ''/'') (dropWhile (\<lambda>c. c = CHR ''/'') (rev root)))"

text \<open>
  Modelled from the spec: the visit of one entry (\<open>named\<close> says whether a directory is
  itself added; only the root may not be) and of the entries of a directory, in their
  order. The first error, or a panic of the handle, ends the visit.
\<close>

fun walk :: "'h archive \<Rightarrow> bool \<Rightarrow> string \<Rightarrow> fs_entry \<Rightarrow> 'h \<Rightarrow> (error option \<times> 'h) go"
  and walk_children ::
    "'h archive \<Rightarrow> string \<Rightarrow> (string \<times> fs_entry) list \<Rightarrow> 'h \<Rightarrow> (error option \<times> 'h) go" where
  "walk a named rel (Unreadable e) h = Return (Some e, h)"
| "walk a named rel (RegularFile src) h = AddFile a h rel src"
| "walk a named rel (Directory children) h =
     (case (if named then AddDirectory a h rel else Return (None, h)) of
        Panic \<Rightarrow> Panic
      | Return (Some e, h1) \<Rightarrow> Return (Some e, h1)
      | Return (None, h1) \<Rightarrow> walk_children a rel children h1)"
| "walk_children a rel [] h = Return (None, h)"
| "walk_children a rel ((name, entry) # rest) h =
     (case walk a True (join_path rel name) entry h of
        Panic \<Rightarrow> Panic
      | Return (Some e, h1) \<Rightarrow> Return (Some e, h1)
      | Return (None, h1) \<Rightarrow> walk_children a rel rest h1)"

text \<open>
  Modelled from the spec: \<^verbatim>\<open>AddAll\<close> itself, which archivex.go does not define.
\<close>

definition AddAll ::
  "'h archive \<Rightarrow> (string \<Rightarrow> fs_entry) \<Rightarrow> string \<Rightarrow> bool \<Rightarrow> 'h \<Rightarrow> (error option \<times> 'h) go" where
  "AddAll a fs root includeRoot h =
     walk a includeRoot (if includeRoot then root_segment root else []) (fs root) h"

text \<open>
  The same traversal, flattened: the visits that the tree asks for, in order, and the
  handle run over them up to the first error.
\<close>

datatype visit = VisitDirectory string | VisitFile string source | VisitError error

fun visits :: "bool \<Rightarrow> string \<Rightarrow> fs_entry \<Rightarrow> visit list"
  and visits_children :: "string \<Rightarrow> (string \<times> fs_entry) list \<Rightarrow> visit list" where
  "visits named rel (Unreadable e) = [VisitError e]"
| "visits named rel (RegularFile src) = [VisitFile rel src]"
| "visits named rel (Directory children) =
     (if named then [VisitDirectory rel] else []) @ visits_children rel children"
| "visits_children rel [] = []"
| "visits_children rel ((name, entry) # rest) =
     visits True (join_path rel name) entry @ visits_children rel rest"

fun do_visit :: "'h archive \<Rightarrow> visit \<Rightarrow> 'h \<Rightarrow> (error option \<times> 'h) go" where
  "do_visit a (VisitDirectory rel) h = AddDirectory a h rel"
| "do_visit a (VisitFile rel src) h = AddFile a h rel src"
| "do_visit a (VisitError e) h = Return (Some e, h)"

fun run_visits :: "'h archive \<Rightarrow> visit list \<Rightarrow> 'h \<Rightarrow> (error option \<times> 'h) go" where
  "run_visits a [] h = Return (None, h)"
| "run_visits a (v # vs) h =
     (case do_visit a v h of
        Panic \<Rightarrow> Panic
      | Return (Some e, h1) \<Rightarrow> Return (Some e, h1)
      | Return (None, h1) \<Rightarrow> run_visits a vs h1)"

text \<open>
  A \<^verbatim>\<open>ZipFile\<close> as an archive handle: the state threaded through the traversal is
  the list of calls made.
\<close>

definition ZipFile_archive :: "env \<Rightarrow> ZipFile \<Rightarrow> (event list) archive" where
  "ZipFile_archive env z =
     \<lparr>AddFile = (\<lambda>tr path src.
         case ZipFile_AddFile env z path src tr of
           Panic \<Rightarrow> Panic
         | Return (err, src1, tr1) \<Rightarrow> Return (err, tr1)),
      AddDirectory = (\<lambda>tr path. ZipFile_AddDirectory env z path tr)\<rparr>"

section \<open>Notions used in the statements\<close>

text \<open>The environment in which every call succeeds.\<close>

definition ok_env :: env where
  "ok_env = \<lparr>outcome = (\<lambda>c. None), time_Now = 0\<rparr>"

text \<open>A \<^verbatim>\<open>bytes.Reader\<close> over \<open>d\<close> at offset \<open>p\<close>; it does not fail.\<close>

definition bytes_source :: "string \<Rightarrow> nat \<Rightarrow> source" where
  "bytes_source d p =
     \<lparr>src_type = BytesReader, src_data = d, src_pos = p, src_seek_fault = (\<lambda>w. None),
      src_read_fault = None\<rparr>"

text \<open>
  An \<^verbatim>\<open>*os.File\<close> over \<open>d\<close> at offset \<open>p\<close>, and a reader without \<^verbatim>\<open>WriteTo\<close> over
  \<open>d\<close> at offset \<open>p\<close>; they do not fail.
\<close>

definition file_source :: "string \<Rightarrow> nat \<Rightarrow> source" where
  "file_source d p =
     \<lparr>src_type = FileReader, src_data = d, src_pos = p, src_seek_fault = (\<lambda>w. None),
      src_read_fault = None\<rparr>"

definition plain_source :: "string \<Rightarrow> nat \<Rightarrow> source" where
  "plain_source d p =
     \<lparr>src_type = OnlyReadSeeker, src_data = d, src_pos = p, src_seek_fault = (\<lambda>w. None),
      src_read_fault = None\<rparr>"

text \<open>The calls that release the output sink \<open>out\<close> of a handle, with their errors.\<close>

definition release_events :: "env \<Rightarrow> sink option \<Rightarrow> event list" where
  "release_events env out =
     (case out of
        Some c \<Rightarrow> if is_Closer c then [(io_Close c, outcome env (io_Close c))] else []
      | None \<Rightarrow> [])"

text \<open>The environment in which the call \<open>c\<close> returns the error \<open>e\<close> and every other call succeeds.\<close>

definition failing_env :: "call \<Rightarrow> error \<Rightarrow> env" where
  "failing_env c e = \<lparr>outcome = (\<lambda>c'. if c' = c then Some e else None), time_Now = 0\<rparr>"

text \<open>
  The headers of a file entry: for TAR a regular file (type flag \<open>0\<close>) of the length of
  the source, mode \<^verbatim>\<open>0666\<close>, dated now; for ZIP the method 8 (deflate) and bit 11 of
  the flags, which is 2048.
\<close>

definition tar_file_header :: "env \<Rightarrow> string \<Rightarrow> source \<Rightarrow> tar_Header" where
  "tar_file_header env path file =
     \<lparr>th_Name = path, th_Typeflag = CHR ''0'', th_Size = int (length (src_data file)),
      th_Mode = 438, th_ModTime = time_Now env\<rparr>"

definition zip_file_header :: "string \<Rightarrow> zip_FileHeader" where
  "zip_file_header path = \<lparr>zh_Name = path, zh_Flags = 2048, zh_Method = 8\<rparr>"

text \<open>The TAR encoder of the handle writes into a gzip encoder.\<close>

fun gzip_wrapped :: "TarFile \<Rightarrow> bool" where
  "gzip_wrapped t =
     (case t_Writer t of
        Some (tar_NewWriter (OnGzip g)) \<Rightarrow> True
      | _ \<Rightarrow> False)"

text \<open>The blocks in which a loop with a buffer of \<open>n\<close> bytes moves the bytes \<open>s\<close>.\<close>

function chunks :: "nat \<Rightarrow> string \<Rightarrow> string list" where
  "chunks n s = (if n = 0 \<or> s = [] then [] else take n s # chunks n (drop n s))"
  by pat_completeness auto
termination
  by (relation "measure (\<lambda>(n, s). length s)") auto

text \<open>
  The blocks written when the source \<open>src\<close> is copied with a buffer of \<open>n\<close> bytes and
  nothing fails: all that is left at once from a \<^verbatim>\<open>bytes.Reader\<close>, blocks of 32 KiB
  from a file, blocks of the buffer's size from a source without \<^verbatim>\<open>WriteTo\<close>.
\<close>

definition copy_blocks :: "source \<Rightarrow> nat \<Rightarrow> string list" where
  "copy_blocks src n =
     (let rest = drop (src_pos src) (src_data src)
      in case src_type src of
           BytesReader \<Rightarrow> (if rest = [] then [] else [rest])
         | FileReader \<Rightarrow> chunks (32 * 1024) rest
         | OnlyReadSeeker \<Rightarrow> chunks n rest)"

section \<open>Strings: suffixes and replacement\<close>

lemma HasSuffix_suffix: "HasSuffix s suf \<longleftrightarrow> suffix suf s"
proof
  assume "HasSuffix s suf"
  then have "s = take (length s - length suf) s @ suf"
    unfolding HasSuffix_def by (metis append_take_drop_id)
  then show "suffix suf s" by (rule suffixI)
next
  assume "suffix suf s"
  then obtain zs where "s = zs @ suf" by (auto elim: suffixE)
  then show "HasSuffix s suf" by (simp add: HasSuffix_def)
qed

lemma HasPrefix_prefix: "HasPrefix s pre \<longleftrightarrow> prefix pre s"
proof
  assume "HasPrefix s pre"
  then have "s = pre @ drop (length pre) s"
    unfolding HasPrefix_def by (metis append_take_drop_id)
  then show "prefix pre s" by (rule prefixI)
next
  assume "prefix pre s"
  then obtain zs where "s = pre @ zs" by (auto elim: prefixE)
  then show "HasPrefix s pre" by (simp add: HasPrefix_def)
qed

lemma overlap_border:
  assumes eq: "u @ p = p @ w" and w: "length w < length p"
  shows "drop (length w) p = take (length p - length w) p"
proof -
  from eq have len: "length u = length w"
    by (metis add_right_cancel length_append add.commute)
  from eq have "take (length p) (u @ p) = p" by simp
  with w len have "u @ take (length p - length w) p = p" by simp
  then have "drop (length u) (u @ take (length p - length w) p) = drop (length u) p" by simp
  with len show ?thesis by simp
qed

lemma suffix_Replace_all:
  assumes nb: "\<And>k. 0 < k \<Longrightarrow> k < Suc (length old) \<Longrightarrow>
                 drop k (a # old) \<noteq> take (Suc (length old) - k) (a # old)"
  shows "suffix (a # old) s \<Longrightarrow> suffix new (Replace_all s (a # old) new)"
proof (induction s "a # old" new rule: Replace_all.induct)
  case (1 new)
  then show ?case by simp
next
  case (2 c s new)
  show ?case
  proof (cases "HasPrefix (c # s) (a # old)")
    case True
    then obtain r where r: "c # s = (a # old) @ r"
      by (auto simp: HasPrefix_prefix elim: prefixE)
    then have d: "drop (length old) s = r" by auto
    show ?thesis
    proof (cases "r = []")
      case True
      with d \<open>HasPrefix (c # s) (a # old)\<close> show ?thesis by simp
    next
      case False
      have "suffix (a # old) r"
      proof (cases "length (a # old) \<le> length r")
        case True
        from 2(3) r have "suffix (a # old) ((a # old) @ r)" by simp
        with True show ?thesis
          by (metis suffix_length_suffix suffixI)
      next
        case short: False
        from 2(3) r obtain u where "(a # old) @ r = u @ a # old"
          by (auto elim: suffixE)
        then have "u @ (a # old) = (a # old) @ r" by simp
        from overlap_border[OF this] short
        have "drop (length r) (a # old) = take (Suc (length old) - length r) (a # old)"
          by simp
        moreover from False short have "0 < length r" "length r < Suc (length old)"
          by simp_all
        ultimately show ?thesis using nb by blast
      qed
      with 2(1)[OF True] d have "suffix new (Replace_all r (a # old) new)" by simp
      with True d show ?thesis by (simp add: suffix_appendI)
    qed
  next
    case False
    with 2(3) have "suffix (a # old) s"
      by (metis HasPrefix_prefix prefix_order.eq_iff suffix_Cons)
    with 2(2)[OF False] have "suffix new (Replace_all s (a # old) new)" by simp
    with False show ?thesis by (simp add: suffix_ConsI)
  qed
qed

lemma Replace_all_zip_suffix:
  "suffix ''.zip'' s \<Longrightarrow> suffix new (Replace_all s ''.zip'' new)"
proof (rule suffix_Replace_all)
  fix k :: nat
  assume "0 < k" "k < Suc (length ''zip'')"
  then have "k = 1 \<or> k = 2 \<or> k = 3" by simp arith
  then show "drop k ''.zip'' \<noteq> take (Suc (length ''zip'') - k) ''.zip''"
    by (auto simp: numeral_2_eq_2 numeral_3_eq_3)
qed

lemma Replace_all_targz_suffix:
  "suffix ''.tar.gz'' s \<Longrightarrow> suffix new (Replace_all s ''.tar.gz'' new)"
proof (rule suffix_Replace_all)
  fix k :: nat
  assume "0 < k" "k < Suc (length ''tar.gz'')"
  then have "k = 1 \<or> k = 2 \<or> k = 3 \<or> k = 4 \<or> k = 5 \<or> k = 6" by simp arith
  then show "drop k ''.tar.gz'' \<noteq> take (Suc (length ''tar.gz'') - k) ''.tar.gz''"
    by (auto simp: eval_nat_numeral)
qed

section \<open>Destination names\<close>

lemma ZipFile_Create_Name:
  "z_Name (fst (snd (ZipFile_Create env z name tr))) =
     (if suffix ''.zip'' name then name
      else if suffix ''.tar.gz'' name then Replace_all name ''.tar.gz'' ''.zip''
      else name @ ''.zip'')"
  by (simp add: ZipFile_Create_def perform_def HasSuffix_suffix Let_def split: option.split)

lemma suffix_append_self: "suffix s (n @ s)"
  by (simp add: suffix_def)

lemma ZipFile_Create_Name_suffix:
  "suffix ''.zip'' (z_Name (fst (snd (ZipFile_Create env z name tr))))"
  unfolding ZipFile_Create_Name
  by (simp add: Replace_all_targz_suffix suffix_append_self del: Replace_all.simps)

lemma configureName_Name:
  "t_Name (TarFile_configureName t name) =
     (if suffix ''.tar.gz'' name \<or> suffix ''.tar'' name then name
      else if suffix ''.zip'' name then Replace_all name ''.zip'' ''.tar.gz''
      else name @ ''.tar'')"
  by (simp add: TarFile_configureName_def HasSuffix_suffix Let_def)

lemma configureName_Compressed:
  "t_Compressed (TarFile_configureName t name) =
     (suffix ''.tar.gz'' name \<or> (\<not> suffix ''.tar'' name \<and> suffix ''.zip'' name))"
  by (auto simp add: TarFile_configureName_def HasSuffix_suffix Let_def)

lemma not_targz_append_tar: "\<not> suffix ''.tar.gz'' (name @ ''.tar'')"
  by (simp add: suffix_def)

lemma configureName_Compressed_iff:
  "t_Compressed (TarFile_configureName t name) \<longleftrightarrow>
     suffix ''.tar.gz'' (t_Name (TarFile_configureName t name))"
proof (cases "suffix ''.tar.gz'' name \<or> suffix ''.tar'' name")
  case True
  then show ?thesis
    unfolding configureName_Name configureName_Compressed by (auto simp: suffix_def)
next
  case False
  then show ?thesis
    unfolding configureName_Name configureName_Compressed
    by (simp add: Replace_all_zip_suffix not_targz_append_tar del: Replace_all.simps)
qed

lemma configureName_Name_suffix:
  "suffix ''.tar'' (t_Name (TarFile_configureName t name)) \<or>
   suffix ''.tar.gz'' (t_Name (TarFile_configureName t name))"
  unfolding configureName_Name
  by (simp add: Replace_all_zip_suffix suffix_append_self del: Replace_all.simps)

lemma configureName_fixed:
  "suffix ''.tar'' n \<or> suffix ''.tar.gz'' n \<Longrightarrow>
     t_Name (TarFile_configureName t n) = n \<and>
     t_Compressed (TarFile_configureName t n) = suffix ''.tar.gz'' n"
  unfolding configureName_Name configureName_Compressed
  by (auto simp: suffix_def)

text \<open>
  Claim C9: for both formats the normalization of the destination name is idempotent.
  The name that \<^verbatim>\<open>ZipFile.Create\<close> stores, given to \<^verbatim>\<open>ZipFile.Create\<close> again, is stored
  unchanged; the name that \<^verbatim>\<open>configureName\<close> stores, given to \<^verbatim>\<open>configureName\<close> again,
  is stored unchanged, with the same \<^verbatim>\<open>Compressed\<close> flag. This holds for every name,
  every handle and every outcome of \<^verbatim>\<open>os.Create\<close>.
\<close>

theorem normalization_idempotent:
  "z_Name (fst (snd (ZipFile_Create env' z' (z_Name (fst (snd (ZipFile_Create env z name tr)))) tr')))
     = z_Name (fst (snd (ZipFile_Create env z name tr)))
   \<and> t_Name (TarFile_configureName t' (t_Name (TarFile_configureName t name)))
     = t_Name (TarFile_configureName t name)
   \<and> t_Compressed (TarFile_configureName t' (t_Name (TarFile_configureName t name)))
     = t_Compressed (TarFile_configureName t name)"
proof (intro conjI)
  let ?n = "z_Name (fst (snd (ZipFile_Create env z name tr)))"
  have "suffix ''.zip'' ?n" by (rule ZipFile_Create_Name_suffix)
  then show "z_Name (fst (snd (ZipFile_Create env' z' ?n tr'))) = ?n"
    by (simp only: ZipFile_Create_Name [of env' z' ?n tr'] if_True)
next
  let ?n = "t_Name (TarFile_configureName t name)"
  have s: "suffix ''.tar'' ?n \<or> suffix ''.tar.gz'' ?n" by (rule configureName_Name_suffix)
  from configureName_fixed [OF s, of t']
  show "t_Name (TarFile_configureName t' ?n) = ?n" by blast
  from configureName_fixed [OF s, of t'] configureName_Compressed_iff [of t name]
  show "t_Compressed (TarFile_configureName t' ?n) = t_Compressed (TarFile_configureName t name)"
    by simp
qed

theorem normalization_idempotent_witness:
  "z_Name (fst (snd (ZipFile_Create ok_env new_ZipFile
       (z_Name (fst (snd (ZipFile_Create ok_env new_ZipFile ''a.tar.gz'' [])))) [])))
     = z_Name (fst (snd (ZipFile_Create ok_env new_ZipFile ''a.tar.gz'' [])))
   \<and> t_Name (TarFile_configureName new_TarFile
       (t_Name (TarFile_configureName new_TarFile ''a.zip'')))
     = t_Name (TarFile_configureName new_TarFile ''a.zip'')
   \<and> t_Compressed (TarFile_configureName new_TarFile
       (t_Name (TarFile_configureName new_TarFile ''a.zip'')))
     = t_Compressed (TarFile_configureName new_TarFile ''a.zip'')"
  by (intro conjI)
    (rule normalization_idempotent [THEN conjunct1],
     rule normalization_idempotent [THEN conjunct2, THEN conjunct1],
     rule normalization_idempotent [THEN conjunct2, THEN conjunct2])

text \<open>
  Claim C10: after a successful \<^verbatim>\<open>TarFile.Create\<close> or \<^verbatim>\<open>TarFile.CreateWriter\<close>, for
  every name, the stored \<^verbatim>\<open>Name\<close> ends in \<^verbatim>\<open>.tar\<close> or \<^verbatim>\<open>.tar.gz\<close>, the flag
  \<^verbatim>\<open>Compressed\<close> is set exactly when \<^verbatim>\<open>Name\<close> ends in \<^verbatim>\<open>.tar.gz\<close>, and the TAR
  encoder writes into a gzip encoder exactly then.
\<close>

theorem TarFile_name_invariant:
  "(TarFile_Create env t name tr = (None, t1, tr1) \<longrightarrow>
      (HasSuffix (t_Name t1) ''.tar'' \<or> HasSuffix (t_Name t1) ''.tar.gz'') \<and>
      (t_Compressed t1 \<longleftrightarrow> HasSuffix (t_Name t1) ''.tar.gz'') \<and>
      (gzip_wrapped t1 \<longleftrightarrow> HasSuffix (t_Name t1) ''.tar.gz'')) \<and>
   (TarFile_CreateWriter t name w = (None, t2) \<longrightarrow>
      (HasSuffix (t_Name t2) ''.tar'' \<or> HasSuffix (t_Name t2) ''.tar.gz'') \<and>
      (t_Compressed t2 \<longleftrightarrow> HasSuffix (t_Name t2) ''.tar.gz'') \<and>
      (gzip_wrapped t2 \<longleftrightarrow> HasSuffix (t_Name t2) ''.tar.gz''))"
proof (intro conjI impI)
  assume c: "TarFile_Create env t name tr = (None, t1, tr1)"
  let ?c = "TarFile_configureName t name"
  from c have n: "t_Name t1 = t_Name ?c" and k: "t_Compressed t1 = t_Compressed ?c"
    and g: "gzip_wrapped t1 = t_Compressed ?c"
    by (auto simp: TarFile_Create_def perform_def Let_def split: option.splits if_splits)
  show "HasSuffix (t_Name t1) ''.tar'' \<or> HasSuffix (t_Name t1) ''.tar.gz''"
    unfolding n HasSuffix_suffix by (rule configureName_Name_suffix)
  show "t_Compressed t1 \<longleftrightarrow> HasSuffix (t_Name t1) ''.tar.gz''"
    unfolding n k HasSuffix_suffix by (rule configureName_Compressed_iff)
  show "gzip_wrapped t1 \<longleftrightarrow> HasSuffix (t_Name t1) ''.tar.gz''"
    unfolding n g HasSuffix_suffix by (rule configureName_Compressed_iff)
next
  assume c: "TarFile_CreateWriter t name w = (None, t2)"
  let ?c = "TarFile_configureName t name"
  from c have n: "t_Name t2 = t_Name ?c" and k: "t_Compressed t2 = t_Compressed ?c"
    and g: "gzip_wrapped t2 = t_Compressed ?c"
    by (auto simp: TarFile_CreateWriter_def Let_def split: if_splits)
  show "HasSuffix (t_Name t2) ''.tar'' \<or> HasSuffix (t_Name t2) ''.tar.gz''"
    unfolding n HasSuffix_suffix by (rule configureName_Name_suffix)
  show "t_Compressed t2 \<longleftrightarrow> HasSuffix (t_Name t2) ''.tar.gz''"
    unfolding n k HasSuffix_suffix by (rule configureName_Compressed_iff)
  show "gzip_wrapped t2 \<longleftrightarrow> HasSuffix (t_Name t2) ''.tar.gz''"
    unfolding n g HasSuffix_suffix by (rule configureName_Compressed_iff)
qed

theorem TarFile_name_invariant_witness:
  "TarFile_Create ok_env new_TarFile ''out.zip'' [] =
     (None,
      \<lparr>t_Writer = Some (tar_NewWriter (OnGzip (gzip_NewWriter (OsFile ''out.zip'')))),
       t_Name = ''out.tar.gz'',
       t_GzWriter = Some (gzip_NewWriter (OsFile ''out.zip'')),
       t_Compressed = True, t_out = Some (OsFile ''out.zip'')\<rparr>,
      [(os_Create ''out.zip'', None)])
   \<and> TarFile_CreateWriter new_TarFile ''out.zip'' (PlainWriter 0) =
     (None,
      \<lparr>t_Writer = Some (tar_NewWriter (OnGzip (gzip_NewWriter (PlainWriter 0)))),
       t_Name = ''out.tar.gz'',
       t_GzWriter = Some (gzip_NewWriter (PlainWriter 0)),
       t_Compressed = True, t_out = Some (PlainWriter 0)\<rparr>)
   \<and> HasSuffix ''out.tar.gz'' ''.tar.gz''"
proof -
  let ?t1 = "\<lparr>t_Writer = Some (tar_NewWriter (OnGzip (gzip_NewWriter (OsFile ''out.zip'')))),
       t_Name = ''out.tar.gz'',
       t_GzWriter = Some (gzip_NewWriter (OsFile ''out.zip'')),
       t_Compressed = True, t_out = Some (OsFile ''out.zip'')\<rparr>"
  let ?t2 = "\<lparr>t_Writer = Some (tar_NewWriter (OnGzip (gzip_NewWriter (PlainWriter 0)))),
       t_Name = ''out.tar.gz'',
       t_GzWriter = Some (gzip_NewWriter (PlainWriter 0)),
       t_Compressed = True, t_out = Some (PlainWriter 0)\<rparr>"
  have a: "TarFile_Create ok_env new_TarFile ''out.zip'' [] =
             (None, ?t1, [(os_Create ''out.zip'', None)])"
    by (simp add: TarFile_Create_def TarFile_configureName_def ok_env_def new_TarFile_def
        perform_def HasSuffix_def HasPrefix_def Let_def)
  have b: "TarFile_CreateWriter new_TarFile ''out.zip'' (PlainWriter 0) = (None, ?t2)"
    by (simp add: TarFile_CreateWriter_def TarFile_configureName_def new_TarFile_def
        HasSuffix_def HasPrefix_def Let_def)
  from TarFile_name_invariant [of ok_env new_TarFile "''out.zip''" "[]" ?t1
      "[(os_Create ''out.zip'', None)]" "PlainWriter 0" ?t2] a b
  have "t_Compressed ?t1 \<longleftrightarrow> HasSuffix (t_Name ?t1) ''.tar.gz''"
    by blast
  then have "HasSuffix ''out.tar.gz'' ''.tar.gz''"
    by simp
  with a b show ?thesis by simp
qed

lemmas eval_defs =
  ZipFile_Create_def ZipFile_CreateWriter_def ZipFile_Close_def
  TarFile_Create_def TarFile_CreateWriter_def TarFile_Close_def TarFile_configureName_def
  ok_env_def new_ZipFile_def new_TarFile_def perform_def HasSuffix_def HasPrefix_def Let_def

text \<open>
  Claim C6: \<^verbatim>\<open>ZipFile.Create\<close> keeps a name that ends in \<^verbatim>\<open>.zip\<close>, rewrites only the
  trailing \<^verbatim>\<open>.tar.gz\<close> of a name that ends in it, and appends \<^verbatim>\<open>.zip\<close> otherwise. The
  code replaces every \<^verbatim>\<open>.tar.gz\<close> of the name, not only the trailing one: for the name
  \<^verbatim>\<open>v1.tar.gz/out.tar.gz\<close> it stores, and opens, \<^verbatim>\<open>v1.zip/out.zip\<close>, where the claim
  gives \<^verbatim>\<open>v1.tar.gz/out.zip\<close>.
\<close>

theorem ZipFile_Create_rewrites_every_targz:
  "ZipFile_Create ok_env new_ZipFile ''v1.tar.gz/out.tar.gz'' [] =
     (None,
      \<lparr>z_Writer = Some (zip_NewWriter (OsFile ''v1.zip/out.zip'')),
       z_Name = ''v1.zip/out.zip'', z_out = None\<rparr>,
      [(os_Create ''v1.zip/out.zip'', None)])"
  by (simp add: eval_defs)

text \<open>
  Claim C5: \<^verbatim>\<open>configureName\<close> sets \<^verbatim>\<open>Compressed\<close> when the name ends in
  \<^verbatim>\<open>.tar.gz\<close>; a name that ends in neither \<^verbatim>\<open>.tar.gz\<close> nor \<^verbatim>\<open>.tar\<close> has its suffix
  \<^verbatim>\<open>.zip\<close> replaced by \<^verbatim>\<open>.tar.gz\<close> (and is compressed) or gets \<^verbatim>\<open>.tar\<close> appended; so
  \<^verbatim>\<open>Create("out.zip")\<close> yields the destination \<^verbatim>\<open>out.tar.gz\<close>. The code replaces every
  \<^verbatim>\<open>.zip\<close> of the name: \<^verbatim>\<open>v1.zip/out.zip\<close> becomes \<^verbatim>\<open>v1.tar.gz/out.tar.gz\<close>, where the
  claim gives \<^verbatim>\<open>v1.zip/out.tar.gz\<close>. And \<^verbatim>\<open>Create("out.zip")\<close> stores the name
  \<^verbatim>\<open>out.tar.gz\<close> but opens the file at \<^verbatim>\<open>out.zip\<close>.
\<close>

theorem TarFile_configureName_rewrites_every_zip:
  "TarFile_configureName new_TarFile ''v1.zip/out.zip'' =
     \<lparr>t_Writer = None, t_Name = ''v1.tar.gz/out.tar.gz'', t_GzWriter = None,
      t_Compressed = True, t_out = None\<rparr>
   \<and> snd (snd (TarFile_Create ok_env new_TarFile ''out.zip'' [])) = [(os_Create ''out.zip'', None)]
   \<and> t_Name (fst (snd (TarFile_Create ok_env new_TarFile ''out.zip'' []))) = ''out.tar.gz''"
  by (simp add: eval_defs)

text \<open>
  Claim C3: \<^verbatim>\<open>CreateWriter\<close> of either writer stores the name unchanged and detects no
  compression. This holds for \<^verbatim>\<open>ZipFile.CreateWriter\<close> and fails for
  \<^verbatim>\<open>TarFile.CreateWriter\<close>, which calls \<^verbatim>\<open>configureName\<close>: the name \<^verbatim>\<open>out.zip\<close> is
  not stored as it is, and the handle is compressed.
\<close>

theorem TarFile_CreateWriter_normalizes:
  "t_Name (snd (TarFile_CreateWriter new_TarFile ''out.zip'' (PlainWriter 0))) \<noteq> ''out.zip''
   \<and> t_Compressed (snd (TarFile_CreateWriter new_TarFile ''out.zip'' (PlainWriter 0)))"
  by (simp add: eval_defs)

text \<open>
  Claim C3, amended: \<^verbatim>\<open>ZipFile.CreateWriter\<close> stores the name unchanged and binds the ZIP
  encoder to the sink. \<^verbatim>\<open>TarFile.CreateWriter\<close> stores the name and the flag
  \<^verbatim>\<open>Compressed\<close> that \<^verbatim>\<open>configureName\<close> computes, the same that \<^verbatim>\<open>TarFile.Create\<close>
  stores for that name, and binds the TAR encoder to a gzip encoder over the sink when
  the flag is set, to the sink itself otherwise. Both return no error.
\<close>

theorem CreateWriter_names:
  "fst (ZipFile_CreateWriter z name w) = None
   \<and> z_Name (snd (ZipFile_CreateWriter z name w)) = name
   \<and> z_Writer (snd (ZipFile_CreateWriter z name w)) = Some (zip_NewWriter w)
   \<and> fst (TarFile_CreateWriter t name w) = None
   \<and> t_Name (snd (TarFile_CreateWriter t name w)) = t_Name (TarFile_configureName t name)
   \<and> t_Compressed (snd (TarFile_CreateWriter t name w))
       = t_Compressed (TarFile_configureName t name)
   \<and> t_Name (snd (TarFile_CreateWriter t name w))
       = t_Name (fst (snd (TarFile_Create env t name tr)))
   \<and> t_Compressed (snd (TarFile_CreateWriter t name w))
       = t_Compressed (fst (snd (TarFile_Create env t name tr)))
   \<and> t_Writer (snd (TarFile_CreateWriter t name w)) =
       Some (tar_NewWriter (if t_Compressed (TarFile_configureName t name)
                            then OnGzip (gzip_NewWriter w) else OnSink w))"
  by (simp add: ZipFile_CreateWriter_def TarFile_CreateWriter_def TarFile_Create_def
      perform_def Let_def split: option.split)

theorem CreateWriter_names_witness:
  "z_Name (snd (ZipFile_CreateWriter new_ZipFile ''out.tar.gz'' (PlainWriter 0))) = ''out.tar.gz''
   \<and> t_Name (snd (TarFile_CreateWriter new_TarFile ''out.zip'' (PlainWriter 0)))
       = t_Name (TarFile_configureName new_TarFile ''out.zip'')
   \<and> t_Name (TarFile_configureName new_TarFile ''out.zip'') = ''out.tar.gz''"
proof -
  note c = CreateWriter_names [of new_ZipFile "''out.tar.gz''" "PlainWriter 0"]
  note d = CreateWriter_names [of _ "''out.zip''" "PlainWriter 0" new_TarFile]
  have "t_Name (TarFile_configureName new_TarFile ''out.zip'') = ''out.tar.gz''"
    by (simp add: TarFile_configureName_def new_TarFile_def HasSuffix_def HasPrefix_def Let_def)
  with c d show ?thesis by blast
qed

section \<open>Closing\<close>

lemma ZipFile_Close_result:
  "z_Writer z = Some w \<Longrightarrow>
     ZipFile_Close env z tr =
       Return (outcome env (zip_Close w),
               tr @ [(zip_Close w, outcome env (zip_Close w))] @ release_events env (z_out z))"
  by (simp add: ZipFile_Close_def perform_def release_events_def split: option.split)

lemma ZipFile_out_never_set:
  "z_out (fst (snd (ZipFile_Create env z name tr))) = z_out z \<and>
   z_out (snd (ZipFile_CreateWriter z name w)) = z_out z"
  by (simp add: ZipFile_Create_def ZipFile_CreateWriter_def perform_def Let_def split: option.split)

text \<open>
  Claim C1: after a successful \<^verbatim>\<open>ZipFile.Create\<close>, \<^verbatim>\<open>Close\<close> finalizes the ZIP encoder,
  then releases the output sink if it can be released, and returns the encoder's error.
  The code never sets the field \<^verbatim>\<open>out\<close> of a \<^verbatim>\<open>ZipFile\<close>, so \<^verbatim>\<open>Close\<close> finds no sink
  to release: after \<^verbatim>\<open>Create("out")\<close> on a new handle, \<^verbatim>\<open>Close\<close> finalizes the encoder
  and leaves the file \<^verbatim>\<open>out.zip\<close>, which has a \<^verbatim>\<open>Close\<close> method, open.
\<close>

theorem ZipFile_Close_leaves_file_open:
  "ZipFile_Create ok_env new_ZipFile ''out'' [] =
     (None,
      \<lparr>z_Writer = Some (zip_NewWriter (OsFile ''out.zip'')), z_Name = ''out.zip'',
       z_out = None\<rparr>,
      [(os_Create ''out.zip'', None)])
   \<and> ZipFile_Close ok_env
       \<lparr>z_Writer = Some (zip_NewWriter (OsFile ''out.zip'')), z_Name = ''out.zip'',
        z_out = None\<rparr>
       [(os_Create ''out.zip'', None)] =
     Return (None,
       [(os_Create ''out.zip'', None), (zip_Close (zip_NewWriter (OsFile ''out.zip'')), None)])
   \<and> is_Closer (OsFile ''out.zip'')"
  by (simp add: eval_defs)

text \<open>
  Claim C4: \<^verbatim>\<open>TarFile.Close\<close> finalizes the TAR encoder, then the gzip encoder if the
  handle is compressed, returning at once if that fails, then releases the sink if it can
  be released, and returns the error of that release. The code drops the error of the
  release: with a sink whose \<^verbatim>\<open>Close\<close> fails, \<^verbatim>\<open>TarFile.Close\<close> returns no error.
\<close>

theorem TarFile_Close_drops_release_error:
  "TarFile_Close (failing_env (io_Close (ClosableWriter 0)) (Err ''close''))
     \<lparr>t_Writer = Some (tar_NewWriter (OnSink (ClosableWriter 0))), t_Name = ''a.tar'',
      t_GzWriter = None, t_Compressed = False, t_out = Some (ClosableWriter 0)\<rparr> [] =
   Return (None,
     [(tar_Close (tar_NewWriter (OnSink (ClosableWriter 0))), None),
      (io_Close (ClosableWriter 0), Some (Err ''close''))])"
  by (simp add: TarFile_Close_def failing_env_def perform_def)

text \<open>
  Claim C4, amended: \<^verbatim>\<open>TarFile.Close\<close> on an open handle finalizes the TAR encoder first
  and returns its error at once if it fails. If the handle is compressed it finalizes the
  gzip encoder next, and returns its error at once if it fails, without releasing the
  sink. Otherwise it releases the sink if the sink can be released, drops the error of
  that release, and returns no error.
\<close>

theorem TarFile_Close_order:
  assumes "t_Writer t = Some w"
  shows "(outcome env (tar_Close w) = Some e \<longrightarrow>
            TarFile_Close env t tr = Return (Some e, tr @ [(tar_Close w, Some e)]))
       \<and> (outcome env (tar_Close w) = None \<and> t_Compressed t \<and> t_GzWriter t = Some g \<and>
            outcome env (gzip_Close g) = Some e \<longrightarrow>
            TarFile_Close env t tr =
              Return (Some e, tr @ [(tar_Close w, None), (gzip_Close g, Some e)]))
       \<and> (outcome env (tar_Close w) = None \<and> t_Compressed t \<and> t_GzWriter t = Some g \<and>
            outcome env (gzip_Close g) = None \<longrightarrow>
            TarFile_Close env t tr =
              Return (None, tr @ [(tar_Close w, None), (gzip_Close g, None)]
                              @ release_events env (t_out t)))
       \<and> (outcome env (tar_Close w) = None \<and> \<not> t_Compressed t \<longrightarrow>
            TarFile_Close env t tr =
              Return (None, tr @ [(tar_Close w, None)] @ release_events env (t_out t)))"
  using assms
  by (auto simp add: TarFile_Close_def perform_def release_events_def Let_def split: option.split)

theorem TarFile_Close_order_witness:
  "TarFile_Close (failing_env (tar_Close (tar_NewWriter (OnGzip (gzip_NewWriter (ClosableWriter 0)))))
        (Err ''tar''))
     \<lparr>t_Writer = Some (tar_NewWriter (OnGzip (gzip_NewWriter (ClosableWriter 0)))),
      t_Name = ''a.tar.gz'', t_GzWriter = Some (gzip_NewWriter (ClosableWriter 0)),
      t_Compressed = True, t_out = Some (ClosableWriter 0)\<rparr> [] =
     Return (Some (Err ''tar''),
       [(tar_Close (tar_NewWriter (OnGzip (gzip_NewWriter (ClosableWriter 0)))),
         Some (Err ''tar''))])
   \<and> TarFile_Close (failing_env (gzip_Close (gzip_NewWriter (ClosableWriter 0))) (Err ''gzip''))
     \<lparr>t_Writer = Some (tar_NewWriter (OnGzip (gzip_NewWriter (ClosableWriter 0)))),
      t_Name = ''a.tar.gz'', t_GzWriter = Some (gzip_NewWriter (ClosableWriter 0)),
      t_Compressed = True, t_out = Some (ClosableWriter 0)\<rparr> [] =
     Return (Some (Err ''gzip''),
       [(tar_Close (tar_NewWriter (OnGzip (gzip_NewWriter (ClosableWriter 0)))), None),
        (gzip_Close (gzip_NewWriter (ClosableWriter 0)), Some (Err ''gzip''))])
   \<and> TarFile_Close (failing_env (io_Close (ClosableWriter 0)) (Err ''close''))
     \<lparr>t_Writer = Some (tar_NewWriter (OnGzip (gzip_NewWriter (ClosableWriter 0)))),
      t_Name = ''a.tar.gz'', t_GzWriter = Some (gzip_NewWriter (ClosableWriter 0)),
      t_Compressed = True, t_out = Some (ClosableWriter 0)\<rparr> [] =
     Return (None,
       [(tar_Close (tar_NewWriter (OnGzip (gzip_NewWriter (ClosableWriter 0)))), None),
        (gzip_Close (gzip_NewWriter (ClosableWriter 0)), None),
        (io_Close (ClosableWriter 0), Some (Err ''close''))])
   \<and> TarFile_Close ok_env
     \<lparr>t_Writer = Some (tar_NewWriter (OnSink (PlainWriter 0))),
      t_Name = ''a.tar'', t_GzWriter = None,
      t_Compressed = False, t_out = Some (PlainWriter 0)\<rparr> [] =
     Return (None, [(tar_Close (tar_NewWriter (OnSink (PlainWriter 0))), None)])"
proof -
  let ?g = "gzip_NewWriter (ClosableWriter 0)"
  let ?w = "tar_NewWriter (OnGzip ?g)"
  let ?t = "\<lparr>t_Writer = Some ?w, t_Name = ''a.tar.gz'', t_GzWriter = Some ?g,
      t_Compressed = True, t_out = Some (ClosableWriter 0)\<rparr>"
  let ?v = "tar_NewWriter (OnSink (PlainWriter 0))"
  let ?u = "\<lparr>t_Writer = Some ?v, t_Name = ''a.tar'', t_GzWriter = None,
      t_Compressed = False, t_out = Some (PlainWriter 0)\<rparr>"
  have t: "t_Writer ?t = Some ?w" and u: "t_Writer ?u = Some ?v" by simp_all
  show ?thesis
    using TarFile_Close_order [OF t, of "failing_env (tar_Close ?w) (Err ''tar'')" "Err ''tar''" "[]" ?g]
      TarFile_Close_order [OF t, of "failing_env (gzip_Close ?g) (Err ''gzip'')" "Err ''gzip''" "[]" ?g]
      TarFile_Close_order [OF t, of "failing_env (io_Close (ClosableWriter 0)) (Err ''close'')" "Err ''gzip''" "[]" ?g]
      TarFile_Close_order [OF u, of ok_env "Err ''x''" "[]" ?g]
    by (simp add: failing_env_def ok_env_def release_events_def)
qed

section \<open>Copying\<close>

declare copy_loop.simps [simp del] chunks.simps [simp del]

lemma chunks_Nil: "chunks n [] = []"
  by (simp add: chunks.simps)

lemma chunks_Cons: "0 < n \<Longrightarrow> s \<noteq> [] \<Longrightarrow> chunks n s = take n s # chunks n (drop n s)"
  by (subst chunks.simps) simp

lemma concat_chunks: "0 < n \<Longrightarrow> concat (chunks n s) = s"
proof (induction n s rule: chunks.induct)
  case (1 n s)
  show ?case
  proof (cases "s = []")
    case True
    then show ?thesis by (simp add: chunks_Nil)
  next
    case False
    with 1 show ?thesis by (simp add: chunks_Cons)
  qed
qed

lemma concat_copy_blocks:
  "0 < n \<Longrightarrow> concat (copy_blocks src n) = drop (src_pos src) (src_data src)"
  by (cases "src_type src") (simp_all add: copy_blocks_def Let_def concat_chunks)

lemma Seek_End:
  "src_seek_fault f SeekEnd = None \<Longrightarrow>
     Seek f 0 SeekEnd = ((int (length (src_data f)), None), f\<lparr>src_pos := length (src_data f)\<rparr>)"
  by (simp add: Seek_def)

lemma Seek_Start:
  "src_seek_fault f SeekStart = None \<Longrightarrow> Seek f 0 SeekStart = ((0, None), f\<lparr>src_pos := 0\<rparr>)"
  by (simp add: Seek_def)

lemma Seek_fault: "src_seek_fault f wh = Some e \<Longrightarrow> Seek f off wh = ((0, Some e), f)"
  by (simp add: Seek_def)

lemma Read_fault: "src_read_fault f = Some e \<Longrightarrow> Read f n = (([], Some e), f)"
  by (simp add: Read_def)

lemma Read_EOF:
  "src_read_fault f = None \<Longrightarrow> length (src_data f) \<le> src_pos f \<Longrightarrow>
     Read f n = (([], Some EOF), f)"
  by (simp add: Read_def)

lemma Read_block:
  "src_read_fault f = None \<Longrightarrow> src_pos f < length (src_data f) \<Longrightarrow>
     Read f n = ((take n (drop (src_pos f) (src_data f)), None),
                 f\<lparr>src_pos := src_pos f + min n (length (src_data f) - src_pos f)\<rparr>)"
  by (simp add: Read_def Let_def min_def)

lemma loop_read_fault:
  "0 < n \<Longrightarrow> src_read_fault src = Some e \<Longrightarrow>
     copy_loop env dst src n tr = Return (if e \<noteq> EOF then Some e else None, src, tr)"
  by (subst copy_loop.simps) (simp add: Read_fault)

lemma loop_write_fault:
  "0 < n \<Longrightarrow> src_read_fault src = None \<Longrightarrow> src_pos src < length (src_data src) \<Longrightarrow>
   outcome env (Write_call dst (take n (drop (src_pos src) (src_data src)))) = Some e \<Longrightarrow>
     copy_loop env dst src n tr =
       Return (Some e, src\<lparr>src_pos := src_pos src + min n (length (src_data src) - src_pos src)\<rparr>,
               tr @ [(Write_call dst (take n (drop (src_pos src) (src_data src))), Some e)])"
  by (subst copy_loop.simps) (simp add: Read_block perform_def)

lemma loop_all:
  "0 < n \<Longrightarrow> src_read_fault src = None \<Longrightarrow> \<forall>b. outcome env (Write_call dst b) = None \<Longrightarrow>
     copy_loop env dst src n tr =
       Return (None, src\<lparr>src_pos := max (src_pos src) (length (src_data src))\<rparr>,
               tr @ map (\<lambda>b. (Write_call dst b, None))
                      (chunks n (drop (src_pos src) (src_data src))))"
proof (induction env dst src n tr rule: copy_loop.induct)
  case (1 env dst src n tr)
  show ?case
  proof (cases "src_pos src < length (src_data src)")
    case False
    then have "max (src_pos src) (length (src_data src)) = src_pos src" by simp
    with False 1(2,3) show ?thesis
      by (subst copy_loop.simps) (simp add: Read_EOF chunks_Nil)
  next
    case True
    let ?b = "take n (drop (src_pos src) (src_data src))"
    let ?src1 = "src\<lparr>src_pos := src_pos src + min n (length (src_data src) - src_pos src)\<rparr>"
    let ?tr1 = "tr @ [(Write_call dst ?b, None)]"
    from True 1(2) have ne: "?b \<noteq> []" by simp
    have rd: "Read src n = ((?b, None), ?src1)" using 1(3) True by (rule Read_block)
    have pf: "perform env (Write_call dst ?b) tr = (None, ?tr1)"
      using 1(4) by (simp add: perform_def)
    have step: "copy_loop env dst src n tr = copy_loop env dst ?src1 n ?tr1"
      using 1(2) ne by (subst copy_loop.simps) (simp add: rd pf)
    have ih: "copy_loop env dst ?src1 n ?tr1 =
        Return (None, ?src1\<lparr>src_pos := max (src_pos ?src1) (length (src_data ?src1))\<rparr>,
                ?tr1 @ map (\<lambda>b. (Write_call dst b, None))
                         (chunks n (drop (src_pos ?src1) (src_data ?src1))))"
      using 1(1) [of "(?b, None)" ?src1 ?b None None ?tr1] 1(2,3,4) rd ne pf by simp
    have dr: "drop (src_pos ?src1) (src_data ?src1) = drop n (drop (src_pos src) (src_data src))"
      by (cases "n \<le> length (src_data src) - src_pos src") (simp_all add: min_def add.commute)
    have ch: "chunks n (drop (src_pos src) (src_data src)) =
                ?b # chunks n (drop n (drop (src_pos src) (src_data src)))"
      using 1(2) True by (intro chunks_Cons) simp_all
    from True have mx: "max (src_pos ?src1) (length (src_data ?src1)) = length (src_data src)"
      "max (src_pos src) (length (src_data src)) = length (src_data src)"
      by (simp_all add: min_def)
    show ?thesis
      unfolding step ih dr ch using mx by simp
  qed
qed

lemma loop_success:
  "copy_loop env dst src n tr = Return (None, src1, tr1) \<Longrightarrow> src_read_fault src \<noteq> Some EOF \<Longrightarrow>
     src1 = src\<lparr>src_pos := max (src_pos src) (length (src_data src))\<rparr>"
proof (induction env dst src n tr rule: copy_loop.induct)
  case (1 env dst src n tr)
  from 1(2) have n: "n \<noteq> 0" by (subst (asm) copy_loop.simps) (simp split: if_splits)
  show ?case
  proof (cases "src_read_fault src")
    case (Some e)
    with 1(2,3) n show ?thesis
      by (subst (asm) copy_loop.simps) (simp add: Read_fault split: if_splits)
  next
    case None
    show ?thesis
    proof (cases "src_pos src < length (src_data src)")
      case False
      then have "max (src_pos src) (length (src_data src)) = src_pos src" by simp
      with False None 1(2) n show ?thesis
        by (subst (asm) copy_loop.simps) (simp add: Read_EOF)
    next
      case True
      let ?b = "take n (drop (src_pos src) (src_data src))"
      let ?src1 = "src\<lparr>src_pos := src_pos src + min n (length (src_data src) - src_pos src)\<rparr>"
      let ?tr1 = "tr @ [(Write_call dst ?b, outcome env (Write_call dst ?b))]"
      from True n have ne: "?b \<noteq> []" by simp
      have rd: "Read src n = ((?b, None), ?src1)" using None True by (rule Read_block)
      from 1(2) n ne have ok: "outcome env (Write_call dst ?b) = None"
        by (subst (asm) copy_loop.simps) (simp add: rd perform_def split: option.splits)
      with 1(2) n ne have rec: "copy_loop env dst ?src1 n ?tr1 = Return (None, src1, tr1)"
        by (subst (asm) copy_loop.simps) (simp add: rd perform_def)
      have "src1 = ?src1\<lparr>src_pos := max (src_pos ?src1) (length (src_data ?src1))\<rparr>"
        using 1(1) [of "(?b, None)" ?src1 ?b None None ?tr1] n rd ne ok rec None
        by (simp add: perform_def)
      moreover from True have "max (src_pos ?src1) (length (src_data ?src1)) = length (src_data src)"
        "max (src_pos src) (length (src_data src)) = length (src_data src)"
        by (simp_all add: min_def)
      ultimately show ?thesis by simp
    qed
  qed
qed

text \<open>The dispatch of \<^verbatim>\<open>io.copyBuffer\<close>, by the type of the source.\<close>

lemma copy_without_WriteTo_loop:
  "copy_without_WriteTo env dst src n tr = copy_loop env dst src n tr"
  by (cases dst) (simp_all add: copy_without_WriteTo_def)

lemma copyBuffer_dispatch:
  "copyBuffer env dst src buf tr =
     (case src_type src of
        BytesReader \<Rightarrow> Reader_WriteTo env dst src tr
      | FileReader \<Rightarrow> copy_loop env dst src (32 * 1024) tr
      | OnlyReadSeeker \<Rightarrow> copy_loop env dst src (buffer_size buf) tr)"
  by (simp add: copyBuffer_def as_WriterTo_def File_WriteTo_def copy_without_WriteTo_loop
      split: source_type.split)

lemma Reader_WriteTo_all:
  "\<forall>b. outcome env (Write_call dst b) = None \<Longrightarrow>
     Reader_WriteTo env dst src tr =
       Return (None, src\<lparr>src_pos := max (src_pos src) (length (src_data src))\<rparr>,
               tr @ map (\<lambda>b. (Write_call dst b, None))
                      (if drop (src_pos src) (src_data src) = [] then []
                       else [drop (src_pos src) (src_data src)]))"
proof (cases "src_pos src < length (src_data src)")
  case True
  moreover assume "\<forall>b. outcome env (Write_call dst b) = None"
  ultimately show ?thesis
    by (simp add: Reader_WriteTo_def perform_def Let_def max_def)
next
  case False
  then have "max (src_pos src) (length (src_data src)) = src_pos src" by simp
  with False show ?thesis
    by (simp add: Reader_WriteTo_def)
qed

lemma Reader_WriteTo_success:
  "Reader_WriteTo env dst src tr = Return (None, src1, tr1) \<Longrightarrow>
     src1 = src\<lparr>src_pos := max (src_pos src) (length (src_data src))\<rparr>"
proof (cases "src_pos src < length (src_data src)")
  case True
  moreover assume "Reader_WriteTo env dst src tr = Return (None, src1, tr1)"
  ultimately show ?thesis
    by (auto simp add: Reader_WriteTo_def perform_def Let_def max_def split: option.splits)
next
  case False
  then have "max (src_pos src) (length (src_data src)) = src_pos src" by simp
  moreover assume "Reader_WriteTo env dst src tr = Return (None, src1, tr1)"
  ultimately show ?thesis using False
    by (simp add: Reader_WriteTo_def)
qed

lemma copy_all:
  assumes "src_type src = BytesReader \<or> src_read_fault src = None"
    and "\<forall>b. outcome env (Write_call dst b) = None" and "0 < buffer_size buf"
  shows "copyBuffer env dst src buf tr =
       Return (None, src\<lparr>src_pos := max (src_pos src) (length (src_data src))\<rparr>,
               tr @ map (\<lambda>b. (Write_call dst b, None)) (copy_blocks src (buffer_size buf)))"
proof (cases "src_type src")
  case BytesReader
  with assms(2) show ?thesis
    by (simp add: copyBuffer_dispatch copy_blocks_def Reader_WriteTo_all Let_def)
next
  case FileReader
  with assms show ?thesis
    by (simp add: copyBuffer_dispatch copy_blocks_def loop_all Let_def)
next
  case OnlyReadSeeker
  with assms show ?thesis
    by (simp add: copyBuffer_dispatch copy_blocks_def loop_all Let_def)
qed

lemma copy_success:
  assumes "copyBuffer env dst src buf tr = Return (None, src1, tr1)"
    and "src_type src = BytesReader \<or> src_read_fault src \<noteq> Some EOF"
  shows "src1 = src\<lparr>src_pos := max (src_pos src) (length (src_data src))\<rparr>"
proof (cases "src_type src")
  case BytesReader
  with assms(1) show ?thesis
    by (simp add: copyBuffer_dispatch Reader_WriteTo_success)
next
  case FileReader
  with assms show ?thesis
    by (simp add: copyBuffer_dispatch loop_success)
next
  case OnlyReadSeeker
  with assms show ?thesis
    by (simp add: copyBuffer_dispatch loop_success)
qed

lemma copy_read_fault:
  "src_type src \<noteq> BytesReader \<Longrightarrow> 0 < buffer_size buf \<Longrightarrow> src_read_fault src = Some e \<Longrightarrow>
     copyBuffer env dst src buf tr = Return (if e \<noteq> EOF then Some e else None, src, tr)"
  by (cases "src_type src") (simp_all add: copyBuffer_dispatch loop_read_fault)

lemma copy_write_fault_Reader:
  "src_type src = BytesReader \<Longrightarrow> src_pos src < length (src_data src) \<Longrightarrow>
   outcome env (Write_call dst (drop (src_pos src) (src_data src))) = Some e \<Longrightarrow>
     copyBuffer env dst src buf tr =
       Return (Some e, src, tr @ [(Write_call dst (drop (src_pos src) (src_data src)), Some e)])"
  by (simp add: copyBuffer_dispatch Reader_WriteTo_def perform_def Let_def)

lemma copy_write_fault_File:
  "src_type src = FileReader \<Longrightarrow> src_read_fault src = None \<Longrightarrow>
   src_pos src < length (src_data src) \<Longrightarrow>
   outcome env (Write_call dst (take (32 * 1024) (drop (src_pos src) (src_data src)))) = Some e \<Longrightarrow>
     copyBuffer env dst src buf tr =
       Return (Some e,
         src\<lparr>src_pos := src_pos src + min (32 * 1024) (length (src_data src) - src_pos src)\<rparr>,
         tr @ [(Write_call dst (take (32 * 1024) (drop (src_pos src) (src_data src))), Some e)])"
  using loop_write_fault [of "32 * 1024" src env dst e tr]
  by (simp add: copyBuffer_dispatch)

lemma copy_write_fault_plain:
  "src_type src = OnlyReadSeeker \<Longrightarrow> 0 < buffer_size buf \<Longrightarrow> src_read_fault src = None \<Longrightarrow>
   src_pos src < length (src_data src) \<Longrightarrow>
   outcome env (Write_call dst (take (buffer_size buf) (drop (src_pos src) (src_data src))))
     = Some e \<Longrightarrow>
     copyBuffer env dst src buf tr =
       Return (Some e,
         src\<lparr>src_pos := src_pos src
                    + min (buffer_size buf) (length (src_data src) - src_pos src)\<rparr>,
         tr @ [(Write_call dst (take (buffer_size buf) (drop (src_pos src) (src_data src))),
                Some e)])"
  using loop_write_fault [of "buffer_size buf" src env dst e tr]
  by (simp add: copyBuffer_dispatch)

lemma chunks_bound: "0 < n \<Longrightarrow> b \<in> set (chunks n s) \<Longrightarrow> b \<noteq> [] \<and> length b \<le> n"
proof (induction n s rule: chunks.induct)
  case (1 n s)
  show ?case
  proof (cases "s = []")
    case True
    with 1(3) show ?thesis by (simp add: chunks_Nil)
  next
    case False
    with 1(2,3) have "b = take n s \<or> b \<in> set (chunks n (drop n s))"
      by (simp add: chunks_Cons)
    with 1(1) False 1(2) show ?thesis by auto
  qed
qed

section \<open>Adding a file\<close>

lemma TarFile_AddFile_seeks:
  assumes "src_seek_fault file SeekEnd = None" "src_seek_fault file SeekStart = None"
    "t_Writer t = Some w"
  shows "TarFile_AddFile env t path file tr =
     (case outcome env (tar_WriteHeader w (tar_file_header env path file)) of
        Some e \<Rightarrow> Return (Some e, file\<lparr>src_pos := 0\<rparr>,
                    tr @ [(tar_WriteHeader w (tar_file_header env path file), Some e)])
      | None \<Rightarrow> io_Copy env (TarEntry w) (file\<lparr>src_pos := 0\<rparr>)
                    (tr @ [(tar_WriteHeader w (tar_file_header env path file), None)]))"
  using assms
  by (simp add: TarFile_AddFile_def Seek_End Seek_Start tar_file_header_def tar_TypeReg_def
      perform_def Let_def split: option.split)

text \<open>
  Claim C7: \<^verbatim>\<open>TarFile.AddFile\<close> on an open handle seeks the source to its end to learn
  its length and back to its start, writes a header of a regular file with that size, and
  copies all the bytes. It returns the error of either seek, of the header or of the copy
  (a failing read, a failing write), having done nothing after the failing step. When it
  returns no error the header and all the bytes of the source, from its start, were
  written, and the source stands at the end of its data. This holds whether the copy is
  the \<^verbatim>\<open>WriteTo\<close> of the source or the loop of package io; a \<^verbatim>\<open>bytes.Reader\<close> does
  not read, so it has no failing read, and after a failing write it stands where the copy
  began.
\<close>

theorem TarFile_AddFile_behaviour:
  assumes w: "t_Writer t = Some w"
  shows
    "(src_seek_fault file SeekEnd = Some e \<longrightarrow>
        TarFile_AddFile env t path file tr = Return (Some e, file, tr))
   \<and> (src_seek_fault file SeekEnd = None \<and> src_seek_fault file SeekStart = Some e \<longrightarrow>
        TarFile_AddFile env t path file tr =
          Return (Some e, file\<lparr>src_pos := length (src_data file)\<rparr>, tr))
   \<and> (src_seek_fault file SeekEnd = None \<and> src_seek_fault file SeekStart = None \<and>
      outcome env (tar_WriteHeader w (tar_file_header env path file)) = Some e \<longrightarrow>
        TarFile_AddFile env t path file tr =
          Return (Some e, file\<lparr>src_pos := 0\<rparr>,
                  tr @ [(tar_WriteHeader w (tar_file_header env path file), Some e)]))
   \<and> (src_seek_fault file SeekEnd = None \<and> src_seek_fault file SeekStart = None \<and>
      outcome env (tar_WriteHeader w (tar_file_header env path file)) = None \<longrightarrow>
        TarFile_AddFile env t path file tr =
          io_Copy env (TarEntry w) (file\<lparr>src_pos := 0\<rparr>)
            (tr @ [(tar_WriteHeader w (tar_file_header env path file), None)])
      \<and> (src_type file \<noteq> BytesReader \<and> src_read_fault file = Some e \<and> e \<noteq> EOF \<longrightarrow>
           TarFile_AddFile env t path file tr =
             Return (Some e, file\<lparr>src_pos := 0\<rparr>,
                     tr @ [(tar_WriteHeader w (tar_file_header env path file), None)]))
      \<and> (src_type file = BytesReader \<and> src_data file \<noteq> [] \<and>
         outcome env (tar_Write w (src_data file)) = Some e \<longrightarrow>
           TarFile_AddFile env t path file tr =
             Return (Some e, file\<lparr>src_pos := 0\<rparr>,
                     tr @ [(tar_WriteHeader w (tar_file_header env path file), None),
                           (tar_Write w (src_data file), Some e)]))
      \<and> (src_type file \<noteq> BytesReader \<and> src_read_fault file = None \<and> src_data file \<noteq> [] \<and>
         outcome env (tar_Write w (take (32 * 1024) (src_data file))) = Some e \<longrightarrow>
           TarFile_AddFile env t path file tr =
             Return (Some e, file\<lparr>src_pos := min (32 * 1024) (length (src_data file))\<rparr>,
                     tr @ [(tar_WriteHeader w (tar_file_header env path file), None),
                           (tar_Write w (take (32 * 1024) (src_data file)), Some e)]))
      \<and> ((src_type file = BytesReader \<or> src_read_fault file = None) \<and>
         (\<forall>b. outcome env (tar_Write w b) = None) \<longrightarrow>
           TarFile_AddFile env t path file tr =
             Return (None, file\<lparr>src_pos := length (src_data file)\<rparr>,
                     tr @ [(tar_WriteHeader w (tar_file_header env path file), None)]
                        @ map (\<lambda>b. (tar_Write w b, None))
                            (copy_blocks (file\<lparr>src_pos := 0\<rparr>) (32 * 1024)))
           \<and> concat (copy_blocks (file\<lparr>src_pos := 0\<rparr>) (32 * 1024)) = src_data file)
      \<and> ((src_type file = BytesReader \<or> src_read_fault file \<noteq> Some EOF) \<and>
         TarFile_AddFile env t path file tr = Return (None, file1, tr1) \<longrightarrow>
           file1 = file\<lparr>src_pos := length (src_data file)\<rparr>))"
proof (intro conjI impI; (elim conjE)?)
  assume "src_seek_fault file SeekEnd = Some e"
  then show "TarFile_AddFile env t path file tr = Return (Some e, file, tr)"
    by (simp add: TarFile_AddFile_def Seek_fault)
next
  assume "src_seek_fault file SeekEnd = None" "src_seek_fault file SeekStart = Some e"
  then show "TarFile_AddFile env t path file tr =
          Return (Some e, file\<lparr>src_pos := length (src_data file)\<rparr>, tr)"
    by (simp add: TarFile_AddFile_def Seek_End Seek_fault)
next
  assume "src_seek_fault file SeekEnd = None" "src_seek_fault file SeekStart = None"
    "outcome env (tar_WriteHeader w (tar_file_header env path file)) = Some e"
  then show "TarFile_AddFile env t path file tr =
          Return (Some e, file\<lparr>src_pos := 0\<rparr>,
                  tr @ [(tar_WriteHeader w (tar_file_header env path file), Some e)])"
    using w by (simp add: TarFile_AddFile_seeks)
next
  assume s: "src_seek_fault file SeekEnd = None" "src_seek_fault file SeekStart = None"
    and h: "outcome env (tar_WriteHeader w (tar_file_header env path file)) = None"
  let ?tr = "tr @ [(tar_WriteHeader w (tar_file_header env path file), None)]"
  let ?f = "file\<lparr>src_pos := 0\<rparr>"
  have bs: "0 < buffer_size None" by (simp add: buffer_size_def)
  have bz: "buffer_size None = 32 * 1024" by (simp add: buffer_size_def)
  from s h w show c: "TarFile_AddFile env t path file tr = io_Copy env (TarEntry w) ?f ?tr"
    by (simp add: TarFile_AddFile_seeks)
  {
    assume "src_type file \<noteq> BytesReader" "src_read_fault file = Some e" "e \<noteq> EOF"
    then show "TarFile_AddFile env t path file tr = Return (Some e, ?f, ?tr)"
      unfolding c io_Copy_def using copy_read_fault [of ?f None e env "TarEntry w" ?tr] bs
      by simp
  }
  {
    assume "src_type file = BytesReader" "src_data file \<noteq> []"
      "outcome env (tar_Write w (src_data file)) = Some e"
    then show "TarFile_AddFile env t path file tr =
             Return (Some e, ?f,
                     tr @ [(tar_WriteHeader w (tar_file_header env path file), None),
                           (tar_Write w (src_data file), Some e)])"
      unfolding c io_Copy_def
      using copy_write_fault_Reader [of ?f env "TarEntry w" e None ?tr]
      by simp
  }
  {
    assume ty: "src_type file \<noteq> BytesReader" and "src_read_fault file = None"
      "src_data file \<noteq> []"
      "outcome env (tar_Write w (take (32 * 1024) (src_data file))) = Some e"
    then show "TarFile_AddFile env t path file tr =
             Return (Some e, file\<lparr>src_pos := min (32 * 1024) (length (src_data file))\<rparr>,
                     tr @ [(tar_WriteHeader w (tar_file_header env path file), None),
                           (tar_Write w (take (32 * 1024) (src_data file)), Some e)])"
      unfolding c io_Copy_def
      using copy_write_fault_File [of ?f env "TarEntry w" e None ?tr]
        copy_write_fault_plain [of ?f None env "TarEntry w" e ?tr] bs bz
      by (cases "src_type file") simp_all
  }
  {
    assume "src_type file = BytesReader \<or> src_read_fault file = None"
      "\<forall>b. outcome env (tar_Write w b) = None"
    then show "TarFile_AddFile env t path file tr =
             Return (None, file\<lparr>src_pos := length (src_data file)\<rparr>,
                     tr @ [(tar_WriteHeader w (tar_file_header env path file), None)]
                        @ map (\<lambda>b. (tar_Write w b, None)) (copy_blocks ?f (32 * 1024)))"
      unfolding c io_Copy_def
      using copy_all [of ?f env "TarEntry w" None ?tr] bs bz
      by simp
    show "concat (copy_blocks ?f (32 * 1024)) = src_data file"
      using concat_copy_blocks [of "32 * 1024" ?f] by simp
  }
  {
    assume "src_type file = BytesReader \<or> src_read_fault file \<noteq> Some EOF"
      "TarFile_AddFile env t path file tr = Return (None, file1, tr1)"
    then show "file1 = file\<lparr>src_pos := length (src_data file)\<rparr>"
      unfolding c io_Copy_def
      using copy_success [of env "TarEntry w" ?f None ?tr file1 tr1]
      by simp
  }
qed

theorem TarFile_AddFile_behaviour_witness:
  "TarFile_AddFile ok_env
     \<lparr>t_Writer = Some (tar_NewWriter (OnSink (PlainWriter 0))), t_Name = ''a.tar'',
      t_GzWriter = None, t_Compressed = False, t_out = Some (PlainWriter 0)\<rparr>
     ''a.txt''
     ((file_source ''hello'' 3)
        \<lparr>src_seek_fault := (\<lambda>wh. if wh = SeekEnd then Some (Err ''seek'') else None)\<rparr>) [] =
     Return (Some (Err ''seek''),
       (file_source ''hello'' 3)
         \<lparr>src_seek_fault := (\<lambda>wh. if wh = SeekEnd then Some (Err ''seek'') else None)\<rparr>, [])
   \<and> TarFile_AddFile ok_env
     \<lparr>t_Writer = Some (tar_NewWriter (OnSink (PlainWriter 0))), t_Name = ''a.tar'',
      t_GzWriter = None, t_Compressed = False, t_out = Some (PlainWriter 0)\<rparr>
     ''a.txt''
     ((file_source ''hello'' 3)
        \<lparr>src_seek_fault := (\<lambda>wh. if wh = SeekStart then Some (Err ''seek'') else None)\<rparr>) [] =
     Return (Some (Err ''seek''),
       (file_source ''hello'' 5)
         \<lparr>src_seek_fault := (\<lambda>wh. if wh = SeekStart then Some (Err ''seek'') else None)\<rparr>, [])
   \<and> TarFile_AddFile
     (failing_env (tar_WriteHeader (tar_NewWriter (OnSink (PlainWriter 0)))
        \<lparr>th_Name = ''a.txt'', th_Typeflag = CHR ''0'', th_Size = 5, th_Mode = 438,
         th_ModTime = 0\<rparr>) (Err ''header''))
     \<lparr>t_Writer = Some (tar_NewWriter (OnSink (PlainWriter 0))), t_Name = ''a.tar'',
      t_GzWriter = None, t_Compressed = False, t_out = Some (PlainWriter 0)\<rparr>
     ''a.txt'' (bytes_source ''hello'' 3) [] =
     Return (Some (Err ''header''), bytes_source ''hello'' 0,
       [(tar_WriteHeader (tar_NewWriter (OnSink (PlainWriter 0)))
          \<lparr>th_Name = ''a.txt'', th_Typeflag = CHR ''0'', th_Size = 5, th_Mode = 438,
           th_ModTime = 0\<rparr>, Some (Err ''header''))])
   \<and> TarFile_AddFile ok_env
     \<lparr>t_Writer = Some (tar_NewWriter (OnSink (PlainWriter 0))), t_Name = ''a.tar'',
      t_GzWriter = None, t_Compressed = False, t_out = Some (PlainWriter 0)\<rparr>
     ''a.txt'' ((file_source ''hello'' 3)\<lparr>src_read_fault := Some (Err ''read'')\<rparr>) [] =
     Return (Some (Err ''read''),
       (file_source ''hello'' 0)\<lparr>src_read_fault := Some (Err ''read'')\<rparr>,
       [(tar_WriteHeader (tar_NewWriter (OnSink (PlainWriter 0)))
          \<lparr>th_Name = ''a.txt'', th_Typeflag = CHR ''0'', th_Size = 5, th_Mode = 438,
           th_ModTime = 0\<rparr>, None)])
   \<and> TarFile_AddFile
     (failing_env (tar_Write (tar_NewWriter (OnSink (PlainWriter 0))) ''hello'') (Err ''write''))
     \<lparr>t_Writer = Some (tar_NewWriter (OnSink (PlainWriter 0))), t_Name = ''a.tar'',
      t_GzWriter = None, t_Compressed = False, t_out = Some (PlainWriter 0)\<rparr>
     ''a.txt'' (bytes_source ''hello'' 3) [] =
     Return (Some (Err ''write''), bytes_source ''hello'' 0,
       [(tar_WriteHeader (tar_NewWriter (OnSink (PlainWriter 0)))
          \<lparr>th_Name = ''a.txt'', th_Typeflag = CHR ''0'', th_Size = 5, th_Mode = 438,
           th_ModTime = 0\<rparr>, None),
        (tar_Write (tar_NewWriter (OnSink (PlainWriter 0))) ''hello'', Some (Err ''write''))])
   \<and> TarFile_AddFile
     (failing_env (tar_Write (tar_NewWriter (OnSink (PlainWriter 0))) ''hello'') (Err ''write''))
     \<lparr>t_Writer = Some (tar_NewWriter (OnSink (PlainWriter 0))), t_Name = ''a.tar'',
      t_GzWriter = None, t_Compressed = False, t_out = Some (PlainWriter 0)\<rparr>
     ''a.txt'' (file_source ''hello'' 3) [] =
     Return (Some (Err ''write''), file_source ''hello'' 5,
       [(tar_WriteHeader (tar_NewWriter (OnSink (PlainWriter 0)))
          \<lparr>th_Name = ''a.txt'', th_Typeflag = CHR ''0'', th_Size = 5, th_Mode = 438,
           th_ModTime = 0\<rparr>, None),
        (tar_Write (tar_NewWriter (OnSink (PlainWriter 0))) ''hello'', Some (Err ''write''))])
   \<and> TarFile_AddFile ok_env
     \<lparr>t_Writer = Some (tar_NewWriter (OnSink (PlainWriter 0))), t_Name = ''a.tar'',
      t_GzWriter = None, t_Compressed = False, t_out = Some (PlainWriter 0)\<rparr>
     ''a.txt'' (bytes_source ''hello'' 3) [] =
     Return (None, bytes_source ''hello'' 5,
       [(tar_WriteHeader (tar_NewWriter (OnSink (PlainWriter 0)))
          \<lparr>th_Name = ''a.txt'', th_Typeflag = CHR ''0'', th_Size = 5, th_Mode = 438,
           th_ModTime = 0\<rparr>, None),
        (tar_Write (tar_NewWriter (OnSink (PlainWriter 0))) ''hello'', None)])
   \<and> TarFile_AddFile ok_env
     \<lparr>t_Writer = Some (tar_NewWriter (OnSink (PlainWriter 0))), t_Name = ''a.tar'',
      t_GzWriter = None, t_Compressed = False, t_out = Some (PlainWriter 0)\<rparr>
     ''a.txt'' (file_source ''hello'' 3) [] =
     Return (None, file_source ''hello'' 5,
       [(tar_WriteHeader (tar_NewWriter (OnSink (PlainWriter 0)))
          \<lparr>th_Name = ''a.txt'', th_Typeflag = CHR ''0'', th_Size = 5, th_Mode = 438,
           th_ModTime = 0\<rparr>, None),
        (tar_Write (tar_NewWriter (OnSink (PlainWriter 0))) ''hello'', None)])
   \<and> bytes_source ''hello'' 5 =
       (bytes_source ''hello'' 3)\<lparr>src_pos := length (src_data (bytes_source ''hello'' 3))\<rparr>"
proof -
  let ?w = "tar_NewWriter (OnSink (PlainWriter 0))"
  let ?t = "\<lparr>t_Writer = Some ?w, t_Name = ''a.tar'',
      t_GzWriter = None, t_Compressed = False, t_out = Some (PlainWriter 0)\<rparr>"
  let ?h = "\<lparr>th_Name = ''a.txt'', th_Typeflag = CHR ''0'', th_Size = 5, th_Mode = 438,
         th_ModTime = 0\<rparr>"
  let ?end = "(file_source ''hello'' 3)
        \<lparr>src_seek_fault := (\<lambda>wh. if wh = SeekEnd then Some (Err ''seek'') else None)\<rparr>"
  let ?start = "(file_source ''hello'' 3)
        \<lparr>src_seek_fault := (\<lambda>wh. if wh = SeekStart then Some (Err ''seek'') else None)\<rparr>"
  let ?read = "(file_source ''hello'' 3)\<lparr>src_read_fault := Some (Err ''read'')\<rparr>"
  have t: "t_Writer ?t = Some ?w" by simp
  note th = TarFile_AddFile_behaviour [OF t]
  note seek_end = th [THEN conjunct1, THEN mp]
  note seek_start = th [THEN conjunct2, THEN conjunct1, THEN mp]
  note header = th [THEN conjunct2, THEN conjunct2, THEN conjunct1, THEN mp]
  note copy = th [THEN conjunct2, THEN conjunct2, THEN conjunct2, THEN mp, THEN conjunct2]
  note reading = copy [THEN conjunct1, THEN mp]
  note writing_reader = copy [THEN conjunct2, THEN conjunct1, THEN mp]
  note writing_loop = copy [THEN conjunct2, THEN conjunct2, THEN conjunct1, THEN mp]
  note success =
    copy [THEN conjunct2, THEN conjunct2, THEN conjunct2, THEN conjunct1, THEN mp, THEN conjunct1]
  note positioned = copy [THEN conjunct2, THEN conjunct2, THEN conjunct2, THEN conjunct2, THEN mp]
  note ev = failing_env_def ok_env_def bytes_source_def file_source_def tar_file_header_def
    copy_blocks_def chunks_Cons chunks_Nil
  have a: "TarFile_AddFile ok_env ?t ''a.txt'' ?end [] = Return (Some (Err ''seek''), ?end, [])"
    using seek_end [of ?end "Err ''seek''" ok_env "''a.txt''" "[]"] by (simp add: ev)
  have b: "TarFile_AddFile ok_env ?t ''a.txt'' ?start [] =
     Return (Some (Err ''seek''), ?start\<lparr>src_pos := 5\<rparr>, [])"
    using seek_start [of ?start "Err ''seek''" ok_env "''a.txt''" "[]"] by (simp add: ev)
  have c: "TarFile_AddFile (failing_env (tar_WriteHeader ?w ?h) (Err ''header'')) ?t
     ''a.txt'' (bytes_source ''hello'' 3) [] =
     Return (Some (Err ''header''), bytes_source ''hello'' 0,
       [(tar_WriteHeader ?w ?h, Some (Err ''header''))])"
    using header [of "bytes_source ''hello'' 3"
        "failing_env (tar_WriteHeader ?w ?h) (Err ''header'')" "''a.txt''" "Err ''header''" "[]"]
    by (simp add: ev)
  have d: "TarFile_AddFile ok_env ?t ''a.txt'' ?read [] =
     Return (Some (Err ''read''), ?read\<lparr>src_pos := 0\<rparr>, [(tar_WriteHeader ?w ?h, None)])"
    using reading [of ?read ok_env "''a.txt''" "Err ''read''" "[]"]
    by (simp add: ev)
  have e: "TarFile_AddFile (failing_env (tar_Write ?w ''hello'') (Err ''write'')) ?t
     ''a.txt'' (bytes_source ''hello'' 3) [] =
     Return (Some (Err ''write''), bytes_source ''hello'' 0,
       [(tar_WriteHeader ?w ?h, None), (tar_Write ?w ''hello'', Some (Err ''write''))])"
    using writing_reader [of "bytes_source ''hello'' 3"
        "failing_env (tar_Write ?w ''hello'') (Err ''write'')" "''a.txt''" "Err ''write''" "[]"]
    by (simp add: ev)
  have e': "TarFile_AddFile (failing_env (tar_Write ?w ''hello'') (Err ''write'')) ?t
     ''a.txt'' (file_source ''hello'' 3) [] =
     Return (Some (Err ''write''), file_source ''hello'' 5,
       [(tar_WriteHeader ?w ?h, None), (tar_Write ?w ''hello'', Some (Err ''write''))])"
    using writing_loop [of "file_source ''hello'' 3"
        "failing_env (tar_Write ?w ''hello'') (Err ''write'')" "''a.txt''" "Err ''write''" "[]"]
    by (simp add: ev)
  have f: "TarFile_AddFile ok_env ?t ''a.txt'' (bytes_source ''hello'' 3) [] =
     Return (None, bytes_source ''hello'' 5,
       [(tar_WriteHeader ?w ?h, None), (tar_Write ?w ''hello'', None)])"
    using success [of "bytes_source ''hello'' 3" ok_env "''a.txt''" "[]"]
    by (simp add: ev)
  have f': "TarFile_AddFile ok_env ?t ''a.txt'' (file_source ''hello'' 3) [] =
     Return (None, file_source ''hello'' 5,
       [(tar_WriteHeader ?w ?h, None), (tar_Write ?w ''hello'', None)])"
    using success [of "file_source ''hello'' 3" ok_env "''a.txt''" "[]"]
    by (simp add: ev)
  have g: "bytes_source ''hello'' 5 =
       (bytes_source ''hello'' 3)\<lparr>src_pos := length (src_data (bytes_source ''hello'' 3))\<rparr>"
    using positioned [of "bytes_source ''hello'' 3" ok_env "''a.txt''" "[]"
        "bytes_source ''hello'' 5"
        "[(tar_WriteHeader ?w ?h, None), (tar_Write ?w ''hello'', None)]"] f
    by (simp add: ev)
  from a b c d e e' f f' g show ?thesis by (simp add: ev)
qed

lemma ZipFile_AddFile_header:
  assumes "z_Writer z = Some w"
  shows "ZipFile_AddFile env z path file tr =
     (case outcome env (zip_CreateHeader w (zip_file_header path)) of
        Some e \<Rightarrow> Return (Some e, file, tr @ [(zip_CreateHeader w (zip_file_header path), Some e)])
      | None \<Rightarrow> io_CopyBuffer env (ZipEntry w) file (128 * 1024)
                    (tr @ [(zip_CreateHeader w (zip_file_header path), None)]))"
  using assms
  by (simp add: ZipFile_AddFile_def zip_file_header_def zip_Deflate_def perform_def Let_def
      split: option.split)

text \<open>
  Claim C8: \<^verbatim>\<open>ZipFile.AddFile\<close> writes a header with the entry name, the deflate method
  and bit 11 of the flags, then copies the source from its current offset to its end
  using a copy buffer of 128 KiB, and returns the error of the header or of the copy. The
  buffer given to \<^verbatim>\<open>io.CopyBuffer\<close> is not used when the source has a \<^verbatim>\<open>WriteTo\<close>
  method: a \<^verbatim>\<open>bytes.Reader\<close> of 131073 bytes is written to the entry in one block, which
  is more than the buffer holds.
\<close>

theorem ZipFile_AddFile_ignores_buffer:
  "ZipFile_AddFile ok_env
     \<lparr>z_Writer = Some (zip_NewWriter (PlainWriter 0)), z_Name = ''a.zip'', z_out = None\<rparr>
     ''big'' (bytes_source (replicate 131073 (CHR ''a'')) 0) [] =
     Return (None, bytes_source (replicate 131073 (CHR ''a'')) 131073,
       [(zip_CreateHeader (zip_NewWriter (PlainWriter 0))
          \<lparr>zh_Name = ''big'', zh_Flags = 2048, zh_Method = 8\<rparr>, None),
        (zip_Write (zip_NewWriter (PlainWriter 0)) (replicate 131073 (CHR ''a'')), None)])
   \<and> 128 * 1024 < length (replicate 131073 (CHR ''a''))"
  by (simp add: ZipFile_AddFile_def io_CopyBuffer_def copyBuffer_def as_WriterTo_def
      Reader_WriteTo_def bytes_source_def ok_env_def perform_def zip_Deflate_def Let_def)

text \<open>
  Claim C8, amended: \<^verbatim>\<open>ZipFile.AddFile\<close> on an open handle writes a header with the entry
  name, the deflate method and bit 11 of the flags (the UTF-8 name flag), then copies the
  source from its current offset to its end with \<^verbatim>\<open>io.CopyBuffer\<close> and a buffer of
  128 KiB. It returns the error of the header, after which nothing is copied, or the
  error of the copy. The buffer is used for a source without \<^verbatim>\<open>WriteTo\<close>, which is
  copied in blocks of at most 128 KiB; a source with \<^verbatim>\<open>WriteTo\<close> copies itself, a
  \<^verbatim>\<open>bytes.Reader\<close> in one block and a file in blocks of at most 32 KiB.
\<close>

theorem ZipFile_AddFile_behaviour:
  assumes w: "z_Writer z = Some w"
  shows
    "bit (zh_Flags (zip_file_header path)) 11 \<and> zh_Flags (zip_file_header path) = push_bit 11 1
   \<and> zh_Method (zip_file_header path) = zip_Deflate \<and> zh_Name (zip_file_header path) = path
   \<and> (outcome env (zip_CreateHeader w (zip_file_header path)) = Some e \<longrightarrow>
        ZipFile_AddFile env z path file tr =
          Return (Some e, file, tr @ [(zip_CreateHeader w (zip_file_header path), Some e)]))
   \<and> (outcome env (zip_CreateHeader w (zip_file_header path)) = None \<longrightarrow>
        ZipFile_AddFile env z path file tr =
          io_CopyBuffer env (ZipEntry w) file (128 * 1024)
            (tr @ [(zip_CreateHeader w (zip_file_header path), None)])
      \<and> (src_type file \<noteq> BytesReader \<and> src_read_fault file = Some e \<and> e \<noteq> EOF \<longrightarrow>
           ZipFile_AddFile env z path file tr =
             Return (Some e, file, tr @ [(zip_CreateHeader w (zip_file_header path), None)]))
      \<and> (src_type file = BytesReader \<and> src_pos file < length (src_data file) \<and>
         outcome env (zip_Write w (drop (src_pos file) (src_data file))) = Some e \<longrightarrow>
           ZipFile_AddFile env z path file tr =
             Return (Some e, file,
               tr @ [(zip_CreateHeader w (zip_file_header path), None),
                     (zip_Write w (drop (src_pos file) (src_data file)), Some e)]))
      \<and> (src_type file = FileReader \<and> src_read_fault file = None \<and>
         src_pos file < length (src_data file) \<and>
         outcome env (zip_Write w (take (32 * 1024) (drop (src_pos file) (src_data file))))
           = Some e \<longrightarrow>
           ZipFile_AddFile env z path file tr =
             Return (Some e,
               file\<lparr>src_pos := src_pos file
                          + min (32 * 1024) (length (src_data file) - src_pos file)\<rparr>,
               tr @ [(zip_CreateHeader w (zip_file_header path), None),
                     (zip_Write w (take (32 * 1024) (drop (src_pos file) (src_data file))),
                      Some e)]))
      \<and> (src_type file = OnlyReadSeeker \<and> src_read_fault file = None \<and>
         src_pos file < length (src_data file) \<and>
         outcome env (zip_Write w (take (128 * 1024) (drop (src_pos file) (src_data file))))
           = Some e \<longrightarrow>
           ZipFile_AddFile env z path file tr =
             Return (Some e,
               file\<lparr>src_pos := src_pos file
                          + min (128 * 1024) (length (src_data file) - src_pos file)\<rparr>,
               tr @ [(zip_CreateHeader w (zip_file_header path), None),
                     (zip_Write w (take (128 * 1024) (drop (src_pos file) (src_data file))),
                      Some e)]))
      \<and> ((src_type file = BytesReader \<or> src_read_fault file = None) \<and>
         (\<forall>b. outcome env (zip_Write w b) = None) \<longrightarrow>
           ZipFile_AddFile env z path file tr =
             Return (None, file\<lparr>src_pos := max (src_pos file) (length (src_data file))\<rparr>,
                     tr @ [(zip_CreateHeader w (zip_file_header path), None)]
                        @ map (\<lambda>b. (zip_Write w b, None)) (copy_blocks file (128 * 1024)))
           \<and> concat (copy_blocks file (128 * 1024)) = drop (src_pos file) (src_data file)))
   \<and> (src_type file = OnlyReadSeeker \<longrightarrow>
        (\<forall>b\<in>set (copy_blocks file (128 * 1024)). b \<noteq> [] \<and> length b \<le> 128 * 1024))
   \<and> (src_type file = FileReader \<longrightarrow>
        (\<forall>b\<in>set (copy_blocks file (128 * 1024)). b \<noteq> [] \<and> length b \<le> 32 * 1024))
   \<and> (src_type file = BytesReader \<longrightarrow>
        copy_blocks file (128 * 1024) =
          (if length (src_data file) \<le> src_pos file then []
           else [drop (src_pos file) (src_data file)]))"
proof (intro conjI impI; (elim conjE)?)
  show "bit (zh_Flags (zip_file_header path)) 11"
    by (simp add: zip_file_header_def bit_iff_odd)
  show "zh_Flags (zip_file_header path) = push_bit 11 1"
    by (simp add: zip_file_header_def)
  show "zh_Method (zip_file_header path) = zip_Deflate"
    by (simp add: zip_file_header_def zip_Deflate_def)
  show "zh_Name (zip_file_header path) = path"
    by (simp add: zip_file_header_def)
next
  assume "outcome env (zip_CreateHeader w (zip_file_header path)) = Some e"
  then show "ZipFile_AddFile env z path file tr =
          Return (Some e, file, tr @ [(zip_CreateHeader w (zip_file_header path), Some e)])"
    using w by (simp add: ZipFile_AddFile_header)
next
  assume h: "outcome env (zip_CreateHeader w (zip_file_header path)) = None"
  let ?tr = "tr @ [(zip_CreateHeader w (zip_file_header path), None)]"
  let ?buf = "Some (128 * 1024 :: nat)"
  have bz: "buffer_size ?buf = 128 * 1024" by (simp add: buffer_size_def)
  have bs: "0 < buffer_size ?buf" by (simp add: buffer_size_def)
  from h w show c: "ZipFile_AddFile env z path file tr =
      io_CopyBuffer env (ZipEntry w) file (128 * 1024) ?tr"
    by (simp add: ZipFile_AddFile_header)
  have d: "io_CopyBuffer env (ZipEntry w) file (128 * 1024) ?tr =
      copyBuffer env (ZipEntry w) file ?buf ?tr"
    by (simp add: io_CopyBuffer_def)
  {
    assume "src_type file \<noteq> BytesReader" "src_read_fault file = Some e" "e \<noteq> EOF"
    then show "ZipFile_AddFile env z path file tr = Return (Some e, file, ?tr)"
      unfolding c d using copy_read_fault [of "file" ?buf e env "ZipEntry w" ?tr] bs
      by simp
  }
  {
    assume "src_type file = BytesReader" "src_pos file < length (src_data file)"
      "outcome env (zip_Write w (drop (src_pos file) (src_data file))) = Some e"
    then show "ZipFile_AddFile env z path file tr =
             Return (Some e, file,
               tr @ [(zip_CreateHeader w (zip_file_header path), None),
                     (zip_Write w (drop (src_pos file) (src_data file)), Some e)])"
      unfolding c d
      using copy_write_fault_Reader [of "file" env "ZipEntry w" e ?buf ?tr]
      by simp
  }
  {
    assume "src_type file = FileReader" "src_read_fault file = None"
      "src_pos file < length (src_data file)"
      "outcome env (zip_Write w (take (32 * 1024) (drop (src_pos file) (src_data file))))
           = Some e"
    then show "ZipFile_AddFile env z path file tr =
             Return (Some e,
               file\<lparr>src_pos := src_pos file
                          + min (32 * 1024) (length (src_data file) - src_pos file)\<rparr>,
               tr @ [(zip_CreateHeader w (zip_file_header path), None),
                     (zip_Write w (take (32 * 1024) (drop (src_pos file) (src_data file))),
                      Some e)])"
      unfolding c d
      using copy_write_fault_File [of "file" env "ZipEntry w" e ?buf ?tr]
      by simp
  }
  {
    assume "src_type file = OnlyReadSeeker" "src_read_fault file = None"
      "src_pos file < length (src_data file)"
      "outcome env (zip_Write w (take (128 * 1024) (drop (src_pos file) (src_data file))))
           = Some e"
    then show "ZipFile_AddFile env z path file tr =
             Return (Some e,
               file\<lparr>src_pos := src_pos file
                          + min (128 * 1024) (length (src_data file) - src_pos file)\<rparr>,
               tr @ [(zip_CreateHeader w (zip_file_header path), None),
                     (zip_Write w (take (128 * 1024) (drop (src_pos file) (src_data file))),
                      Some e)])"
      unfolding c d
      using copy_write_fault_plain [of "file" ?buf env "ZipEntry w" e ?tr] bs bz
      by simp
  }
  {
    assume "src_type file = BytesReader \<or> src_read_fault file = None"
      "\<forall>b. outcome env (zip_Write w b) = None"
    then show "ZipFile_AddFile env z path file tr =
             Return (None, file\<lparr>src_pos := max (src_pos file) (length (src_data file))\<rparr>,
                     tr @ [(zip_CreateHeader w (zip_file_header path), None)]
                        @ map (\<lambda>b. (zip_Write w b, None)) (copy_blocks file (128 * 1024)))"
      unfolding c d
      using copy_all [of "file" env "ZipEntry w" ?buf ?tr] bs bz
      by simp
    show "concat (copy_blocks file (128 * 1024)) = drop (src_pos file) (src_data file)"
      by (rule concat_copy_blocks) simp
  }
next
  assume "src_type file = OnlyReadSeeker"
  then show "\<forall>b\<in>set (copy_blocks file (128 * 1024)). b \<noteq> [] \<and> length b \<le> 128 * 1024"
    using chunks_bound [of "128 * 1024" _ "drop (src_pos file) (src_data file)"]
    by (simp add: copy_blocks_def)
next
  assume "src_type file = FileReader"
  then show "\<forall>b\<in>set (copy_blocks file (128 * 1024)). b \<noteq> [] \<and> length b \<le> 32 * 1024"
    using chunks_bound [of "32 * 1024" _ "drop (src_pos file) (src_data file)"]
    by (simp add: copy_blocks_def)
next
  assume "src_type file = BytesReader"
  then show "copy_blocks file (128 * 1024) =
          (if length (src_data file) \<le> src_pos file then []
           else [drop (src_pos file) (src_data file)])"
    by (simp add: copy_blocks_def)
qed

theorem ZipFile_AddFile_behaviour_witness:
  "bit (2048 :: 16 word) 11
   \<and> ZipFile_AddFile
     (failing_env (zip_CreateHeader (zip_NewWriter (PlainWriter 0))
        \<lparr>zh_Name = ''a.txt'', zh_Flags = 2048, zh_Method = 8\<rparr>) (Err ''header''))
     \<lparr>z_Writer = Some (zip_NewWriter (PlainWriter 0)), z_Name = ''a.zip'', z_out = None\<rparr>
     ''a.txt'' (bytes_source ''hello'' 2) [] =
     Return (Some (Err ''header''), bytes_source ''hello'' 2,
       [(zip_CreateHeader (zip_NewWriter (PlainWriter 0))
          \<lparr>zh_Name = ''a.txt'', zh_Flags = 2048, zh_Method = 8\<rparr>, Some (Err ''header''))])
   \<and> ZipFile_AddFile ok_env
     \<lparr>z_Writer = Some (zip_NewWriter (PlainWriter 0)), z_Name = ''a.zip'', z_out = None\<rparr>
     ''a.txt'' ((file_source ''hello'' 2)\<lparr>src_read_fault := Some (Err ''read'')\<rparr>) [] =
     Return (Some (Err ''read''),
       (file_source ''hello'' 2)\<lparr>src_read_fault := Some (Err ''read'')\<rparr>,
       [(zip_CreateHeader (zip_NewWriter (PlainWriter 0))
          \<lparr>zh_Name = ''a.txt'', zh_Flags = 2048, zh_Method = 8\<rparr>, None)])
   \<and> ZipFile_AddFile
     (failing_env (zip_Write (zip_NewWriter (PlainWriter 0)) ''llo'') (Err ''write''))
     \<lparr>z_Writer = Some (zip_NewWriter (PlainWriter 0)), z_Name = ''a.zip'', z_out = None\<rparr>
     ''a.txt'' (bytes_source ''hello'' 2) [] =
     Return (Some (Err ''write''), bytes_source ''hello'' 2,
       [(zip_CreateHeader (zip_NewWriter (PlainWriter 0))
          \<lparr>zh_Name = ''a.txt'', zh_Flags = 2048, zh_Method = 8\<rparr>, None),
        (zip_Write (zip_NewWriter (PlainWriter 0)) ''llo'', Some (Err ''write''))])
   \<and> ZipFile_AddFile
     (failing_env (zip_Write (zip_NewWriter (PlainWriter 0)) ''llo'') (Err ''write''))
     \<lparr>z_Writer = Some (zip_NewWriter (PlainWriter 0)), z_Name = ''a.zip'', z_out = None\<rparr>
     ''a.txt'' (file_source ''hello'' 2) [] =
     Return (Some (Err ''write''), file_source ''hello'' 5,
       [(zip_CreateHeader (zip_NewWriter (PlainWriter 0))
          \<lparr>zh_Name = ''a.txt'', zh_Flags = 2048, zh_Method = 8\<rparr>, None),
        (zip_Write (zip_NewWriter (PlainWriter 0)) ''llo'', Some (Err ''write''))])
   \<and> ZipFile_AddFile
     (failing_env (zip_Write (zip_NewWriter (PlainWriter 0)) ''llo'') (Err ''write''))
     \<lparr>z_Writer = Some (zip_NewWriter (PlainWriter 0)), z_Name = ''a.zip'', z_out = None\<rparr>
     ''a.txt'' (plain_source ''hello'' 2) [] =
     Return (Some (Err ''write''), plain_source ''hello'' 5,
       [(zip_CreateHeader (zip_NewWriter (PlainWriter 0))
          \<lparr>zh_Name = ''a.txt'', zh_Flags = 2048, zh_Method = 8\<rparr>, None),
        (zip_Write (zip_NewWriter (PlainWriter 0)) ''llo'', Some (Err ''write''))])
   \<and> ZipFile_AddFile ok_env
     \<lparr>z_Writer = Some (zip_NewWriter (PlainWriter 0)), z_Name = ''a.zip'', z_out = None\<rparr>
     ''a.txt'' (bytes_source ''hello'' 2) [] =
     Return (None, bytes_source ''hello'' 5,
       [(zip_CreateHeader (zip_NewWriter (PlainWriter 0))
          \<lparr>zh_Name = ''a.txt'', zh_Flags = 2048, zh_Method = 8\<rparr>, None),
        (zip_Write (zip_NewWriter (PlainWriter 0)) ''llo'', None)])
   \<and> ZipFile_AddFile ok_env
     \<lparr>z_Writer = Some (zip_NewWriter (PlainWriter 0)), z_Name = ''a.zip'', z_out = None\<rparr>
     ''a.txt'' (plain_source ''hello'' 2) [] =
     Return (None, plain_source ''hello'' 5,
       [(zip_CreateHeader (zip_NewWriter (PlainWriter 0))
          \<lparr>zh_Name = ''a.txt'', zh_Flags = 2048, zh_Method = 8\<rparr>, None),
        (zip_Write (zip_NewWriter (PlainWriter 0)) ''llo'', None)])
   \<and> copy_blocks (plain_source ''hello'' 2) (128 * 1024) = [''llo'']
   \<and> length ''llo'' \<le> 128 * 1024
   \<and> copy_blocks (file_source ''hello'' 2) (128 * 1024) = [''llo'']
   \<and> length ''llo'' \<le> 32 * 1024
   \<and> copy_blocks (bytes_source ''hello'' 2) (128 * 1024) = [''llo'']"
proof -
  let ?w = "zip_NewWriter (PlainWriter 0)"
  let ?z = "\<lparr>z_Writer = Some ?w, z_Name = ''a.zip'', z_out = None\<rparr>"
  let ?h = "\<lparr>zh_Name = ''a.txt'', zh_Flags = 2048, zh_Method = 8\<rparr>"
  let ?read = "(file_source ''hello'' 2)\<lparr>src_read_fault := Some (Err ''read'')\<rparr>"
  let ?bad = "failing_env (zip_Write ?w ''llo'') (Err ''write'')"
  have z: "z_Writer ?z = Some ?w" by simp
  note th = ZipFile_AddFile_behaviour [OF z]
  note flag = th [THEN conjunct1]
  note rest = th [THEN conjunct2, THEN conjunct2, THEN conjunct2, THEN conjunct2]
  note header = rest [THEN conjunct1, THEN mp]
  note copy = rest [THEN conjunct2, THEN conjunct1, THEN mp, THEN conjunct2]
  note reading = copy [THEN conjunct1, THEN mp]
  note writing_reader = copy [THEN conjunct2, THEN conjunct1, THEN mp]
  note writing_file = copy [THEN conjunct2, THEN conjunct2, THEN conjunct1, THEN mp]
  note writing_plain =
    copy [THEN conjunct2, THEN conjunct2, THEN conjunct2, THEN conjunct1, THEN mp]
  note success =
    copy [THEN conjunct2, THEN conjunct2, THEN conjunct2, THEN conjunct2, THEN mp, THEN conjunct1]
  note blocks = rest [THEN conjunct2, THEN conjunct2]
  note plain_blocks = blocks [THEN conjunct1, THEN mp]
  note file_blocks = blocks [THEN conjunct2, THEN conjunct1, THEN mp]
  note reader_blocks = blocks [THEN conjunct2, THEN conjunct2, THEN mp]
  note ev = failing_env_def ok_env_def bytes_source_def file_source_def plain_source_def
    zip_file_header_def
  note bl = copy_blocks_def chunks_Cons chunks_Nil
  have a: "bit (2048 :: 16 word) 11"
    using flag [of "''a.txt''"] by (simp add: zip_file_header_def)
  have b: "ZipFile_AddFile (failing_env (zip_CreateHeader ?w ?h) (Err ''header'')) ?z
     ''a.txt'' (bytes_source ''hello'' 2) [] =
     Return (Some (Err ''header''), bytes_source ''hello'' 2,
       [(zip_CreateHeader ?w ?h, Some (Err ''header''))])"
    using header [of "failing_env (zip_CreateHeader ?w ?h) (Err ''header'')" "''a.txt''"
        "Err ''header''" "bytes_source ''hello'' 2" "[]"]
    by (simp add: ev)
  have c: "ZipFile_AddFile ok_env ?z ''a.txt'' ?read [] =
     Return (Some (Err ''read''), ?read, [(zip_CreateHeader ?w ?h, None)])"
    using reading [of ok_env "''a.txt''" ?read "Err ''read''" "[]"]
    by (simp add: ev)
  have d1: "ZipFile_AddFile ?bad ?z ''a.txt'' (bytes_source ''hello'' 2) [] =
     Return (Some (Err ''write''), bytes_source ''hello'' 2,
       [(zip_CreateHeader ?w ?h, None), (zip_Write ?w ''llo'', Some (Err ''write''))])"
    using writing_reader [of ?bad "''a.txt''" "bytes_source ''hello'' 2" "Err ''write''" "[]"]
    by (simp add: ev)
  have d2: "ZipFile_AddFile ?bad ?z ''a.txt'' (file_source ''hello'' 2) [] =
     Return (Some (Err ''write''), file_source ''hello'' 5,
       [(zip_CreateHeader ?w ?h, None), (zip_Write ?w ''llo'', Some (Err ''write''))])"
    using writing_file [of ?bad "''a.txt''" "file_source ''hello'' 2" "Err ''write''" "[]"]
    by (simp add: ev)
  have d3: "ZipFile_AddFile ?bad ?z ''a.txt'' (plain_source ''hello'' 2) [] =
     Return (Some (Err ''write''), plain_source ''hello'' 5,
       [(zip_CreateHeader ?w ?h, None), (zip_Write ?w ''llo'', Some (Err ''write''))])"
    using writing_plain [of ?bad "''a.txt''" "plain_source ''hello'' 2" "Err ''write''" "[]"]
    by (simp add: ev)
  have e1: "ZipFile_AddFile ok_env ?z ''a.txt'' (bytes_source ''hello'' 2) [] =
     Return (None, bytes_source ''hello'' 5,
       [(zip_CreateHeader ?w ?h, None), (zip_Write ?w ''llo'', None)])"
    using success [of ok_env "''a.txt''" "bytes_source ''hello'' 2" "[]"]
    by (simp add: ev bl)
  have e2: "ZipFile_AddFile ok_env ?z ''a.txt'' (plain_source ''hello'' 2) [] =
     Return (None, plain_source ''hello'' 5,
       [(zip_CreateHeader ?w ?h, None), (zip_Write ?w ''llo'', None)])"
    using success [of ok_env "''a.txt''" "plain_source ''hello'' 2" "[]"]
    by (simp add: ev bl)
  have p: "copy_blocks (plain_source ''hello'' 2) (128 * 1024) = [''llo'']"
    by (simp add: plain_source_def bl)
  have q: "copy_blocks (file_source ''hello'' 2) (128 * 1024) = [''llo'']"
    by (simp add: file_source_def bl)
  have f1: "length ''llo'' \<le> 128 * 1024"
    using plain_blocks [of "plain_source ''hello'' 2", THEN bspec, of "''llo''"] p
    by (simp add: plain_source_def)
  have f2: "length ''llo'' \<le> 32 * 1024"
    using file_blocks [of "file_source ''hello'' 2", THEN bspec, of "''llo''"] q
    by (simp add: file_source_def)
  have f3: "copy_blocks (bytes_source ''hello'' 2) (128 * 1024) = [''llo'']"
    using reader_blocks [of "bytes_source ''hello'' 2"] by (simp add: bytes_source_def)
  from a b c d1 d2 d3 e1 e2 p f1 q f2 f3 show ?thesis by (intro conjI)
qed

section \<open>Archiving a tree\<close>

lemma run_visits_append:
  "run_visits a (xs @ ys) h =
     (case run_visits a xs h of
        Panic \<Rightarrow> Panic
      | Return (Some e, h1) \<Rightarrow> Return (Some e, h1)
      | Return (None, h1) \<Rightarrow> run_visits a ys h1)"
  by (induction xs arbitrary: h) (auto split: go.splits option.splits)

lemma walk_visits:
  "walk a named rel entry h = run_visits a (visits named rel entry) h"
  "walk_children a rel children h = run_visits a (visits_children rel children) h"
proof (induction a named rel entry h and a rel children h rule: walk_walk_children.induct)
  case (1 a named rel e h)
  show ?case by simp
next
  case (2 a named rel src h)
  show ?case by (simp split: go.splits option.splits)
next
  case (3 a named rel children h)
  then show ?case by (auto simp: run_visits_append split: go.splits option.splits)
next
  case (4 a rel h)
  show ?case by simp
next
  case (5 a rel name entry rest h)
  then show ?case by (auto simp: run_visits_append split: go.splits option.splits)
qed

lemma ZipFile_archive_AddFile:
  "z_Writer z = Some w \<Longrightarrow> src_type src = BytesReader \<or> src_read_fault src = None \<Longrightarrow>
   \<forall>c. outcome env c = None \<Longrightarrow>
     AddFile (ZipFile_archive env z) tr path src =
       Return (None, tr @ [(zip_CreateHeader w (zip_file_header path), None)]
                       @ map (\<lambda>b. (zip_Write w b, None)) (copy_blocks src (128 * 1024)))"
  using copy_all [of src env "ZipEntry w" "Some (128 * 1024)"]
  by (simp add: ZipFile_archive_def ZipFile_AddFile_header io_CopyBuffer_def buffer_size_def)

lemma ZipFile_archive_AddDirectory:
  "z_Writer z = Some w \<Longrightarrow>
     AddDirectory (ZipFile_archive env z) tr path =
       Return (outcome env (zip_CreateHeader w
                 \<lparr>zh_Name = (if HasSuffix path ''/'' then path else path @ ''/''),
                  zh_Flags = 2048, zh_Method = 0\<rparr>),
               tr @ [(zip_CreateHeader w
                 \<lparr>zh_Name = (if HasSuffix path ''/'' then path else path @ ''/''),
                  zh_Flags = 2048, zh_Method = 0\<rparr>,
                 outcome env (zip_CreateHeader w
                 \<lparr>zh_Name = (if HasSuffix path ''/'' then path else path @ ''/''),
                  zh_Flags = 2048, zh_Method = 0\<rparr>))])"
  by (simp add: ZipFile_archive_def ZipFile_AddDirectory_def zip_Store_def perform_def Let_def)

text \<open>
  Claim C2: \<^verbatim>\<open>AddAll\<close>, from a root path, a flag for the root segment and an archive
  handle, visits every entry under the root, calls \<^verbatim>\<open>AddDirectory\<close> for each directory
  and \<^verbatim>\<open>AddFile\<close> for each regular file with paths relative to the root and joined by
  \<open>/\<close>, and stops at the first error of the traversal or of an added entry, which it
  returns. Stated of the model of section 4.4: the traversal is the run of the handle over
  the visits of the tree in order; a run ends at the first visit that fails, with its
  error, whatever visits come after it.
\<close>

theorem AddAll_traversal:
  "AddAll a fs root includeRoot h =
     run_visits a (visits includeRoot (if includeRoot then root_segment root else []) (fs root)) h
   \<and> (run_visits a vs h = Return (None, h1) \<and> do_visit a v h1 = Return (Some e, h2) \<longrightarrow>
        run_visits a (vs @ v # rest) h = Return (Some e, h2))"
  by (simp add: AddAll_def walk_visits run_visits_append)

theorem AddAll_traversal_witness:
  "AddAll
     (ZipFile_archive ok_env
        \<lparr>z_Writer = Some (zip_NewWriter (PlainWriter 0)), z_Name = ''a.zip'', z_out = None\<rparr>)
     (\<lambda>p. if p = ''/srv/site''
          then Directory [(''css'', Directory [(''a.css'', RegularFile (bytes_source ''x'' 0))]),
                          (''index.html'', RegularFile (bytes_source ''hi'' 0))]
          else Unreadable (Err ''not found''))
     ''/srv/site'' True [] =
   Return (None,
     [(zip_CreateHeader (zip_NewWriter (PlainWriter 0))
         \<lparr>zh_Name = ''site/'', zh_Flags = 2048, zh_Method = 0\<rparr>, None),
      (zip_CreateHeader (zip_NewWriter (PlainWriter 0))
         \<lparr>zh_Name = ''site/css/'', zh_Flags = 2048, zh_Method = 0\<rparr>, None),
      (zip_CreateHeader (zip_NewWriter (PlainWriter 0))
         \<lparr>zh_Name = ''site/css/a.css'', zh_Flags = 2048, zh_Method = 8\<rparr>, None),
      (zip_Write (zip_NewWriter (PlainWriter 0)) ''x'', None),
      (zip_CreateHeader (zip_NewWriter (PlainWriter 0))
         \<lparr>zh_Name = ''site/index.html'', zh_Flags = 2048, zh_Method = 8\<rparr>, None),
      (zip_Write (zip_NewWriter (PlainWriter 0)) ''hi'', None)])
   \<and> AddAll
     (ZipFile_archive
        (failing_env (zip_CreateHeader (zip_NewWriter (PlainWriter 0))
            \<lparr>zh_Name = ''css/'', zh_Flags = 2048, zh_Method = 0\<rparr>) (Err ''header''))
        \<lparr>z_Writer = Some (zip_NewWriter (PlainWriter 0)), z_Name = ''a.zip'', z_out = None\<rparr>)
     (\<lambda>p. if p = ''/srv/site''
          then Directory [(''css'', Directory [(''a.css'', RegularFile (bytes_source ''x'' 0))]),
                          (''index.html'', RegularFile (bytes_source ''hi'' 0))]
          else Unreadable (Err ''not found''))
     ''/srv/site'' False [] =
   Return (Some (Err ''header''),
     [(zip_CreateHeader (zip_NewWriter (PlainWriter 0))
         \<lparr>zh_Name = ''css/'', zh_Flags = 2048, zh_Method = 0\<rparr>, Some (Err ''header''))])
   \<and> AddAll
     (ZipFile_archive ok_env
        \<lparr>z_Writer = Some (zip_NewWriter (PlainWriter 0)), z_Name = ''a.zip'', z_out = None\<rparr>)
     (\<lambda>p. if p = ''/srv/site''
          then Directory [(''css'', Directory [(''a.css'', RegularFile (bytes_source ''x'' 0))]),
                          (''index.html'', RegularFile (bytes_source ''hi'' 0))]
          else Unreadable (Err ''not found''))
     ''/srv/missing'' True [] =
   Return (Some (Err ''not found''), [])"
proof -
  let ?w = "zip_NewWriter (PlainWriter 0)"
  let ?z = "\<lparr>z_Writer = Some ?w, z_Name = ''a.zip'', z_out = None\<rparr>"
  let ?fs = "\<lambda>p. if p = ''/srv/site''
          then Directory [(''css'', Directory [(''a.css'', RegularFile (bytes_source ''x'' 0))]),
                          (''index.html'', RegularFile (bytes_source ''hi'' 0))]
          else Unreadable (Err ''not found'')"
  let ?bad = "failing_env (zip_CreateHeader ?w
            \<lparr>zh_Name = ''css/'', zh_Flags = 2048, zh_Method = 0\<rparr>) (Err ''header'')"
  let ?rest = "[VisitFile ''css/a.css'' (bytes_source ''x'' 0),
                VisitFile ''index.html'' (bytes_source ''hi'' 0)]"
  have z: "z_Writer ?z = Some ?w" by simp
  note ev = ZipFile_archive_AddFile [OF z] ZipFile_archive_AddDirectory [OF z]
    root_segment_def join_path_def ok_env_def failing_env_def bytes_source_def
    zip_file_header_def HasSuffix_def copy_blocks_def
  note plan = AddAll_traversal [THEN conjunct1]
  note stop = AddAll_traversal [THEN conjunct2, THEN mp, OF conjI]
  have a: "AddAll (ZipFile_archive ok_env ?z) ?fs ''/srv/site'' True [] =
    Return (None,
     [(zip_CreateHeader ?w \<lparr>zh_Name = ''site/'', zh_Flags = 2048, zh_Method = 0\<rparr>, None),
      (zip_CreateHeader ?w \<lparr>zh_Name = ''site/css/'', zh_Flags = 2048, zh_Method = 0\<rparr>, None),
      (zip_CreateHeader ?w
         \<lparr>zh_Name = ''site/css/a.css'', zh_Flags = 2048, zh_Method = 8\<rparr>, None),
      (zip_Write ?w ''x'', None),
      (zip_CreateHeader ?w
         \<lparr>zh_Name = ''site/index.html'', zh_Flags = 2048, zh_Method = 8\<rparr>, None),
      (zip_Write ?w ''hi'', None)])"
    unfolding plan by (simp add: ev)
  have "run_visits (ZipFile_archive ?bad ?z) [] [] = Return (None, [])" by simp
  moreover have "do_visit (ZipFile_archive ?bad ?z) (VisitDirectory ''css'') [] =
      Return (Some (Err ''header''),
        [(zip_CreateHeader ?w \<lparr>zh_Name = ''css/'', zh_Flags = 2048, zh_Method = 0\<rparr>,
          Some (Err ''header''))])"
    by (simp add: ev)
  ultimately have "run_visits (ZipFile_archive ?bad ?z) ([] @ VisitDirectory ''css'' # ?rest) [] =
      Return (Some (Err ''header''),
        [(zip_CreateHeader ?w \<lparr>zh_Name = ''css/'', zh_Flags = 2048, zh_Method = 0\<rparr>,
          Some (Err ''header''))])"
    by (rule stop)
  then have b: "AddAll (ZipFile_archive ?bad ?z) ?fs ''/srv/site'' False [] =
      Return (Some (Err ''header''),
        [(zip_CreateHeader ?w \<lparr>zh_Name = ''css/'', zh_Flags = 2048, zh_Method = 0\<rparr>,
          Some (Err ''header''))])"
    unfolding plan by (simp add: join_path_def)
  have c: "AddAll (ZipFile_archive ok_env ?z) ?fs ''/srv/missing'' True [] =
      Return (Some (Err ''not found''), [])"
    unfolding plan by simp
  from a b c show ?thesis by (intro conjI)
qed

end
